theory Spec2Isabelle
  imports Main "HOL-Library.Multiset"
begin

section \<open>JavaScript values\<close>

text \<open>
  The server of \<^verbatim>\<open>src/index.ts\<close> handles JSON: tool arguments arrive as a JSON object, the
  upstream API answers with JSON bodies, and every tool result is serialized with
  \<^verbatim>\<open>JSON.stringify\<close>. A JavaScript number is an integer here, or one of the three
  non-finite values that \<^verbatim>\<open>Number(...)\<close> can produce; fractional numbers are not covered.
  An object is the list of its own properties in property order, without duplicate keys.
\<close>

datatype js_number = Num int | NaN | Infinity | NegInfinity

datatype js_value =
    JUndefined
  | JNull
  | JBool bool
  | JNumber js_number
  | JString string
  | JArray "js_value list"
  | JObject "(string \<times> js_value) list"

text \<open>Everything the program throws is an instance of \<^verbatim>\<open>Error\<close> and carries a message.\<close>

datatype js_error = Error string | TypeError string | AxiosError string

fun message :: "js_error \<Rightarrow> string" where
  "message (Error m) = m"
| "message (TypeError m) = m"
| "message (AxiosError m) = m"

text \<open>\<^verbatim>\<open>ToBoolean\<close>: what \<^verbatim>\<open>!x\<close>, \<^verbatim>\<open>x ? a : b\<close> and \<^verbatim>\<open>x || y\<close> test.\<close>

fun truthy :: "js_value \<Rightarrow> bool" where
  "truthy JUndefined = False"
| "truthy JNull = False"
| "truthy (JBool b) = b"
| "truthy (JNumber n) = (n \<noteq> NaN \<and> n \<noteq> Num 0)"
| "truthy (JString s) = (s \<noteq> [])"
| "truthy (JArray xs) = True"
| "truthy (JObject kvs) = True"

subsection \<open>Numbers and strings\<close>

definition digit_char :: "nat \<Rightarrow> char" where
  "digit_char d = ''0123456789'' ! d"

fun decimal_nat :: "nat \<Rightarrow> string" where
  "decimal_nat n = (if n < 10 then [digit_char n] else decimal_nat (n div 10) @ [digit_char (n mod 10)])"

definition decimal :: "int \<Rightarrow> string" where
  "decimal i = (if i < 0 then CHR ''-'' # decimal_nat (nat (- i)) else decimal_nat (nat i))"

text \<open>
  \<^verbatim>\<open>Number::toString\<close> on the safe integers (magnitude at most \<open>2^53 - 1\<close>), which print
  with all their digits; larger numbers are not covered.
\<close>

fun Number_toString :: "js_number \<Rightarrow> string" where
  "Number_toString (Num i) = decimal i"
| "Number_toString NaN = ''NaN''"
| "Number_toString Infinity = ''Infinity''"
| "Number_toString NegInfinity = ''-Infinity''"

fun join :: "string \<Rightarrow> string list \<Rightarrow> string" where
  "join sep [] = []"
| "join sep [s] = s"
| "join sep (s # t # ss) = s @ sep @ join sep (t # ss)"

text \<open>
  The string that \<^verbatim>\<open>String(x)\<close> and template interpolation give for a value that converts
  to a primitive. An array is joined with commas, its null and undefined elements printing
  as the empty string; a plain object prints as \<^verbatim>\<open>[object Object]\<close>.
\<close>

fun String :: "js_value \<Rightarrow> string" where
  "String JUndefined = ''undefined''"
| "String JNull = ''null''"
| "String (JBool b) = (if b then ''true'' else ''false'')"
| "String (JNumber n) = Number_toString n"
| "String (JString s) = s"
| "String (JArray xs) =
     join '','' (map (\<lambda>x. if x = JUndefined \<or> x = JNull then [] else String x) xs)"
| "String (JObject kvs) = ''[object Object]''"

text \<open>
  \<^verbatim>\<open>Number(x)\<close>. Parsing a string as a numeric literal is the runtime's
  \<^verbatim>\<open>StringToNumber\<close>; it is a parameter of the model.
\<close>

fun Number :: "(string \<Rightarrow> js_number) \<Rightarrow> js_value \<Rightarrow> js_number" where
  "Number parse JUndefined = NaN"
| "Number parse JNull = Num 0"
| "Number parse (JBool b) = (if b then Num 1 else Num 0)"
| "Number parse (JNumber n) = n"
| "Number parse (JString s) = parse s"
| "Number parse (JArray xs) = parse (String (JArray xs))"
| "Number parse (JObject kvs) = parse (String (JObject kvs))"

text \<open>
  A value parsed from JSON converts to a primitive unless it is an object with an own
  property \<^verbatim>\<open>toString\<close> (no JSON value is callable, and \<^verbatim>\<open>Object.prototype.valueOf\<close>
  returns the object itself), or an array that holds such an object, whose \<^verbatim>\<open>join\<close>
  converts each element. On a value that does not convert, \<^verbatim>\<open>String(x)\<close> and
  \<^verbatim>\<open>Number(x)\<close> throw a TypeError: \<open>ToString\<close> and \<open>ToNumber\<close> are the two calls
  with that throw.
\<close>

fun converts :: "js_value \<Rightarrow> bool" where
  "converts (JObject kvs) = (''toString'' \<notin> set (map fst kvs))"
| "converts (JArray xs) = list_all converts xs"
| "converts v = True"

definition ToString :: "js_value \<Rightarrow> js_error + string" where
  "ToString v =
     (if converts v then Inr (String v)
      else Inl (TypeError ''Cannot convert object to primitive value''))"

definition ToNumber :: "(string \<Rightarrow> js_number) \<Rightarrow> js_value \<Rightarrow> js_error + js_number" where
  "ToNumber parse v =
     (if converts v then Inr (Number parse v)
      else Inl (TypeError ''Cannot convert object to primitive value''))"

text \<open>\<^verbatim>\<open>s.includes(p)\<close> on strings: \<^verbatim>\<open>p\<close> occurs in \<^verbatim>\<open>s\<close>.\<close>

fun starts_with :: "string \<Rightarrow> string \<Rightarrow> bool" where
  "starts_with s [] = True"
| "starts_with [] (p # ps) = False"
| "starts_with (c # cs) (p # ps) = (c = p \<and> starts_with cs ps)"

fun includes_str :: "string \<Rightarrow> string \<Rightarrow> bool" where
  "includes_str [] p = (p = [])"
| "includes_str (c # cs) p = (starts_with (c # cs) p \<or> includes_str cs p)"

subsection \<open>Objects\<close>

text \<open>
  Reading a property \<^verbatim>\<open>x.k\<close>. On undefined and null the read throws a TypeError. The
  program reads only the names \<^verbatim>\<open>version\<close>, \<^verbatim>\<open>dateCreated\<close>, \<^verbatim>\<open>newGroups\<close>,
  \<^verbatim>\<open>new_groups\<close>, \<^verbatim>\<open>crash_free_rate\<close>, \<^verbatim>\<open>sessions\<close>, \<^verbatim>\<open>stats\<close>, \<^verbatim>\<open>id\<close>,
  \<^verbatim>\<open>title\<close>, \<^verbatim>\<open>permalink\<close> and the argument names; none of them is an index,
  \<^verbatim>\<open>length\<close> or a member of a built-in prototype, so on anything but an object with that
  own property the read gives undefined.
\<close>

definition own :: "(string \<times> js_value) list \<Rightarrow> string \<Rightarrow> js_value" where
  "own kvs k = (case map_of kvs k of None \<Rightarrow> JUndefined | Some v \<Rightarrow> v)"

definition cannot_read :: "string \<Rightarrow> string \<Rightarrow> js_error" where
  "cannot_read x k =
     TypeError (''Cannot read properties of '' @ x @ '' (reading '' @ [CHR 0x27] @ k @ [CHR 0x27] @ '')'')"

fun member :: "js_value \<Rightarrow> string \<Rightarrow> js_error + js_value" where
  "member JUndefined k = Inl (cannot_read ''undefined'' k)"
| "member JNull k = Inl (cannot_read ''null'' k)"
| "member (JObject kvs) k = Inr (own kvs k)"
| "member v k = Inr JUndefined"

text \<open>
  \<^verbatim>\<open>'k' in args\<close> on an object parsed from JSON, for the argument names the dispatcher
  tests (\<^verbatim>\<open>project_slug\<close>, \<^verbatim>\<open>issue_id\<close>, \<^verbatim>\<open>org_slug\<close>): none of them is inherited
  from \<^verbatim>\<open>Object.prototype\<close>, so the test is for an own property, whatever its value.
\<close>

definition has_key :: "string \<Rightarrow> (string \<times> js_value) list \<Rightarrow> bool" where
  "has_key k kvs = (k \<in> set (map fst kvs))"

subsection \<open>JSON.stringify\<close>

definition hex_char :: "nat \<Rightarrow> char" where
  "hex_char d = ''0123456789abcdef'' ! d"

definition escape :: "char \<Rightarrow> string" where
  "escape c =
     (let n = (of_char c :: nat) in
      if n = 0x22 then [CHR 0x5C, CHR 0x22]
      else if n = 0x5C then [CHR 0x5C, CHR 0x5C]
      else if n = 0x08 then [CHR 0x5C, CHR ''b'']
      else if n = 0x0C then [CHR 0x5C, CHR ''f'']
      else if n = 0x0A then [CHR 0x5C, CHR ''n'']
      else if n = 0x0D then [CHR 0x5C, CHR ''r'']
      else if n = 0x09 then [CHR 0x5C, CHR ''t'']
      else if n < 0x20 then [CHR 0x5C, CHR ''u'', CHR ''0'', CHR ''0'', hex_char (n div 16), hex_char (n mod 16)]
      else [c])"

definition quote :: "string \<Rightarrow> string" where
  "quote s = [CHR 0x22] @ concat (map escape s) @ [CHR 0x22]"

text \<open>
  The serialization of a value; \<open>None\<close> is JavaScript's undefined, which
  \<^verbatim>\<open>JSON.stringify(undefined)\<close> returns. A property whose value is undefined is left out
  of an object, an undefined array element prints as null, and so do the non-finite numbers;
  a finite number prints as \<open>Number_toString\<close> has it, on the safe integers.
\<close>

fun JSON_stringify :: "js_value \<Rightarrow> string option" where
  "JSON_stringify JUndefined = None"
| "JSON_stringify JNull = Some ''null''"
| "JSON_stringify (JBool b) = Some (if b then ''true'' else ''false'')"
| "JSON_stringify (JNumber (Num i)) = Some (decimal i)"
| "JSON_stringify (JNumber n) = Some ''null''"
| "JSON_stringify (JString s) = Some (quote s)"
| "JSON_stringify (JArray xs) =
     Some (''['' @ join '','' (map (\<lambda>x. case JSON_stringify x of None \<Rightarrow> ''null'' | Some t \<Rightarrow> t) xs) @ '']'')"
| "JSON_stringify (JObject kvs) =
     Some (''{'' @ join '','' (concat (map (\<lambda>kv. case JSON_stringify (snd kv) of
                                                   None \<Rightarrow> [] | Some t \<Rightarrow> [quote (fst kv) @ '':'' @ t]) kvs)) @ ''}'')"

section \<open>The process and its effects\<close>

text \<open>
  What the program does not compute itself is a parameter: the three environment variables
  (each non-empty, or the process exits at startup), the upstream server, the runtime's
  built-ins and the facts that \<^verbatim>\<open>inspect_sentry\<close> reports about the Node process.
  The upstream answers the \<open>n\<close>-th HTTP attempt of an invocation, for a URL and its query
  parameters, with a response or with a failure (a network error, a timeout or a status
  outside 2xx, which axios turns into a rejection carrying a message).
  \<open>Date_getTime x\<close> is \<^verbatim>\<open>new Date(x).getTime()\<close>, a finite number or NaN.
\<close>

record AxiosResponse =
  status :: nat
  data :: js_value

datatype attempt = Fulfilled AxiosResponse | Rejected string

record process =
  SENTRY_AUTH_TOKEN :: string
  SENTRY_BASE_URL :: string
  SENTRY_ORG_SLUG :: string
  upstream :: "nat \<Rightarrow> string \<Rightarrow> (string \<times> js_value) list \<Rightarrow> attempt"
  StringToNumber :: "string \<Rightarrow> js_number"
  Date_getTime :: "js_value \<Rightarrow> js_number"
  encodeURIComponent :: "string \<Rightarrow> string"
  nodeVersion :: js_value
  platform :: js_value
  memoryUsage :: js_value

text \<open>
  The observable effects of one invocation, in order: each HTTP request handed to the
  network and each backoff delay (in milliseconds) waited by the retry interceptor.
  Writes to the diagnostic stream are not recorded.
\<close>

datatype event = Sent string "(string \<times> js_value) list" | Slept nat

fun is_Sent :: "event \<Rightarrow> bool" where
  "is_Sent (Sent u ps) = True"
| "is_Sent (Slept d) = False"

definition sent :: "event list \<Rightarrow> nat" where
  "sent s = length (filter is_Sent s)"

text \<open>
  An asynchronous computation takes the events so far and returns its value, or the error
  it throws (\<open>Inl\<close>), with the events extended.
\<close>

type_synonym 'a io = "event list \<Rightarrow> (js_error + 'a) \<times> event list"

definition return :: "'a \<Rightarrow> 'a io" where
  "return a = (\<lambda>s. (Inr a, s))"

definition throw :: "js_error \<Rightarrow> 'a io" where
  "throw e = (\<lambda>s. (Inl e, s))"

definition await :: "'a io \<Rightarrow> ('a \<Rightarrow> 'b io) \<Rightarrow> 'b io" where
  "await m f = (\<lambda>s. case m s of (Inl e, s') \<Rightarrow> (Inl e, s') | (Inr a, s') \<Rightarrow> f a s')"

text \<open>Synchronous code that may throw, and its sequencing.\<close>

definition and_then :: "js_error + 'a \<Rightarrow> ('a \<Rightarrow> js_error + 'b) \<Rightarrow> js_error + 'b" where
  "and_then r f = (case r of Inl e \<Rightarrow> Inl e | Inr a \<Rightarrow> f a)"

definition sync :: "js_error + 'a \<Rightarrow> 'a io" where
  "sync r = (\<lambda>s. (r, s))"

section \<open>The HTTP client and its retry interceptor\<close>

text \<open>
  \<^verbatim>\<open>axios.create\<close> gives every request \<^verbatim>\<open>retry: 3\<close> and
  \<^verbatim>\<open>retryDelay: retryCount => retryCount * 1000\<close>; \<open>retryCount\<close> is the request's
  \<^verbatim>\<open>__retryCount\<close>, undefined until the first failure.
\<close>

record AxiosRequestConfig =
  url :: string
  params :: "(string \<times> js_value) list"
  retry :: nat
  retryDelay :: "nat \<Rightarrow> nat"
  retryCount :: "nat option"

definition request_config :: "string \<Rightarrow> (string \<times> js_value) list \<Rightarrow> AxiosRequestConfig" where
  "request_config u ps =
     \<lparr>url = u, params = ps, retry = 3, retryDelay = (\<lambda>retryCount. retryCount * 1000),
      retryCount = None\<rparr>"

text \<open>
  The rejection handler installed with \<^verbatim>\<open>interceptors.response.use\<close>: it rejects with the
  error it was given, or bumps the counter and re-issues the request after the delay.
\<close>

datatype handled = Reject | Retry AxiosRequestConfig nat

definition retry_interceptor :: "AxiosRequestConfig option \<Rightarrow> handled" where
  "retry_interceptor c =
     (case c of
        None \<Rightarrow> Reject
      | Some config \<Rightarrow>
          if retry config = 0 then Reject
          else
            let count = (case retryCount config of None \<Rightarrow> 0 | Some n \<Rightarrow> n) in
            if count \<ge> retry config then Reject
            else
              let config' = config\<lparr>retryCount := Some (count + 1)\<rparr> in
              Retry config' (retryDelay config' (count + 1)))"

function axiosInstance :: "process \<Rightarrow> AxiosRequestConfig \<Rightarrow> AxiosResponse io" where
  "axiosInstance w config s =
     (case upstream w (sent s) (url config) (params config) of
        Fulfilled response \<Rightarrow> (Inr response, s @ [Sent (url config) (params config)])
      | Rejected m \<Rightarrow>
          (case retry_interceptor (Some config) of
             Reject \<Rightarrow> (Inl (AxiosError m), s @ [Sent (url config) (params config)])
           | Retry config' delay \<Rightarrow>
               axiosInstance w config' (s @ [Sent (url config) (params config), Slept delay])))"
  by pat_completeness auto
termination
  by (relation "measure (\<lambda>(w, c, s). retry c - (case retryCount c of None \<Rightarrow> 0 | Some n \<Rightarrow> n))")
     (auto simp: retry_interceptor_def Let_def split: if_splits option.splits)

definition axios_get :: "process \<Rightarrow> string \<Rightarrow> (string \<times> js_value) list \<Rightarrow> AxiosResponse io" where
  "axios_get w u ps = axiosInstance w (request_config u ps)"

section \<open>Array methods\<close>

text \<open>
  \<^verbatim>\<open>xs.map(f)\<close> with a callback that may throw: the first throw ends the call.
\<close>

fun map_array :: "('a \<Rightarrow> js_error + 'b) \<Rightarrow> 'a list \<Rightarrow> js_error + 'b list" where
  "map_array f [] = Inr []"
| "map_array f (x # xs) =
     (case f x of
        Inl e \<Rightarrow> Inl e
      | Inr y \<Rightarrow> (case map_array f xs of Inl e \<Rightarrow> Inl e | Inr ys \<Rightarrow> Inr (y # ys)))"

text \<open>
  \<^verbatim>\<open>xs.slice(0, end)\<close>: the end is truncated to an integer (NaN counts as 0), a negative
  end counts from the back, and the result stays within the array.
\<close>

fun slice0 :: "'a list \<Rightarrow> js_number \<Rightarrow> 'a list" where
  "slice0 xs (Num n) = (if n < 0 then take (nat (int (length xs) + n)) xs else take (nat n) xs)"
| "slice0 xs NaN = []"
| "slice0 xs Infinity = xs"
| "slice0 xs NegInfinity = []"

text \<open>
  \<^verbatim>\<open>xs.sort(cmp)\<close>. The sort is stable; a comparator result below zero puts its first
  argument first, one above zero its second, and zero or NaN keeps the two in their order.
  For a consistent comparator that fixes the result, whatever the algorithm: the model
  inserts each element, from the back, before the first element it does not have to follow.
  For an inconsistent comparator (one that returns NaN, as on a date that does not parse)
  ECMAScript leaves the order to the implementation, and the order of the model need not
  be the runtime's: the properties below are about lists whose dates all parse.
  A throw of the comparator ends the sort.
\<close>

fun keeps_order :: "js_number \<Rightarrow> bool" where
  "keeps_order (Num v) = (v \<le> 0)"
| "keeps_order NaN = True"
| "keeps_order Infinity = False"
| "keeps_order NegInfinity = True"

fun insert_sorted :: "('a \<Rightarrow> 'a \<Rightarrow> js_error + js_number) \<Rightarrow> 'a \<Rightarrow> 'a list \<Rightarrow> js_error + 'a list" where
  "insert_sorted cmp x [] = Inr [x]"
| "insert_sorted cmp x (y # ys) =
     (case cmp x y of
        Inl e \<Rightarrow> Inl e
      | Inr v \<Rightarrow>
          if keeps_order v then Inr (x # y # ys)
          else (case insert_sorted cmp x ys of Inl e \<Rightarrow> Inl e | Inr zs \<Rightarrow> Inr (y # zs)))"

fun sort_array :: "('a \<Rightarrow> 'a \<Rightarrow> js_error + js_number) \<Rightarrow> 'a list \<Rightarrow> js_error + 'a list" where
  "sort_array cmp [] = Inr []"
| "sort_array cmp (x # xs) =
     (case sort_array cmp xs of Inl e \<Rightarrow> Inl e | Inr ys \<Rightarrow> insert_sorted cmp x ys)"

text \<open>Subtraction of two numbers.\<close>

fun minus_number :: "js_number \<Rightarrow> js_number \<Rightarrow> js_number" where
  "minus_number (Num a) (Num b) = Num (a - b)"
| "minus_number NaN y = NaN"
| "minus_number x NaN = NaN"
| "minus_number Infinity Infinity = NaN"
| "minus_number NegInfinity NegInfinity = NaN"
| "minus_number Infinity y = Infinity"
| "minus_number NegInfinity y = NegInfinity"
| "minus_number (Num a) Infinity = NegInfinity"
| "minus_number (Num a) NegInfinity = Infinity"

text \<open>\<^verbatim>\<open>x[0]\<close>, and \<^verbatim>\<open>x?.[0]\<close> and \<^verbatim>\<open>x?.k\<close> of optional chaining.\<close>

fun element0 :: "js_value \<Rightarrow> js_error + js_value" where
  "element0 JUndefined = Inl (cannot_read ''undefined'' ''0'')"
| "element0 JNull = Inl (cannot_read ''null'' ''0'')"
| "element0 (JArray xs) = Inr (case xs of [] \<Rightarrow> JUndefined | x # _ \<Rightarrow> x)"
| "element0 (JString cs) = Inr (case cs of [] \<Rightarrow> JUndefined | c # _ \<Rightarrow> JString [c])"
| "element0 (JObject kvs) = Inr (own kvs ''0'')"
| "element0 v = Inr JUndefined"

definition optional :: "(js_value \<Rightarrow> js_error + js_value) \<Rightarrow> js_value \<Rightarrow> js_value" where
  "optional f x =
     (if x = JUndefined \<or> x = JNull then JUndefined
      else (case f x of Inl e \<Rightarrow> JUndefined | Inr v \<Rightarrow> v))"

text \<open>\<^verbatim>\<open>a || b\<close> on an optional string: undefined and the empty string give way to \<open>b\<close>.\<close>

definition or_else :: "string option \<Rightarrow> string \<Rightarrow> string" where
  "or_else a b = (case a of None \<Rightarrow> b | Some s \<Rightarrow> if s = [] then b else s)"

section \<open>Upstream query helpers\<close>

definition getLatestReleaseVersion :: "process \<Rightarrow> string \<Rightarrow> string \<Rightarrow> js_value io" where
  "getLatestReleaseVersion w orgSlug projectSlug =
     (let releasesUrl = SENTRY_BASE_URL w @ ''projects/'' @ orgSlug @ ''/'' @ projectSlug @ ''/releases/'' in
      await (axios_get w releasesUrl []) (\<lambda>response.
        if \<not> truthy (optional (\<lambda>x. member x ''version'') (optional element0 (data response)))
        then throw (Error ''No releases found'')
        else sync (and_then (element0 (data response)) (\<lambda>x. member x ''version''))))"

text \<open>The comparator of \<^verbatim>\<open>getSortedReleases\<close>; it reads \<^verbatim>\<open>b.dateCreated\<close> first.\<close>

definition newest_first :: "process \<Rightarrow> js_value \<Rightarrow> js_value \<Rightarrow> js_error + js_number" where
  "newest_first w a b =
     and_then (member b ''dateCreated'') (\<lambda>db.
     and_then (member a ''dateCreated'') (\<lambda>da.
       Inr (minus_number (Date_getTime w db) (Date_getTime w da))))"

definition project_release :: "js_value \<Rightarrow> js_error + js_value" where
  "project_release release =
     and_then (member release ''version'') (\<lambda>v.
     and_then (member release ''dateCreated'') (\<lambda>d.
     and_then (member release ''newGroups'') (\<lambda>n.
       Inr (JObject [(''version'', v), (''dateCreated'', d), (''newGroups'', n)]))))"

text \<open>
  \<^verbatim>\<open>response.data.sort(...).map(...)\<close>: a body that is no array has no \<^verbatim>\<open>sort\<close> method.
\<close>

fun sorted_projection :: "process \<Rightarrow> js_value \<Rightarrow> js_error + js_value list" where
  "sorted_projection w (JArray xs) =
     and_then (sort_array (newest_first w) xs) (map_array project_release)"
| "sorted_projection w JUndefined = Inl (cannot_read ''undefined'' ''sort'')"
| "sorted_projection w JNull = Inl (cannot_read ''null'' ''sort'')"
| "sorted_projection w v = Inl (TypeError ''response.data.sort is not a function'')"

definition getSortedReleases :: "process \<Rightarrow> string \<Rightarrow> string \<Rightarrow> js_value list io" where
  "getSortedReleases w orgSlug projectSlug =
     (let url = ''projects/'' @ orgSlug @ ''/'' @ projectSlug @ ''/releases/'' in
      await (axios_get w url []) (\<lambda>response. sync (sorted_projection w (data response))))"

section \<open>The tool registry\<close>

text \<open>
  The object \<^verbatim>\<open>tools\<close>: six entries in declaration order, each with its \<^verbatim>\<open>exec\<close>
  function. The parameters of an \<^verbatim>\<open>exec\<close> are the fields of its parameter object; an
  optional field is an \<open>option\<close>. A release version that \<^verbatim>\<open>exec\<close> takes from the
  upstream is a string in the data model; where it is interpolated into a URL or a query
  it is converted with \<open>String\<close>.
\<close>

datatype tool =
    inspect_sentry | list_recent_releases | get_releases | get_release_health
  | get_issue | get_release_issues

definition tools :: "(string \<times> tool) list" where
  "tools =
     [(''inspect_sentry'', inspect_sentry),
      (''list_recent_releases'', list_recent_releases),
      (''get_releases'', get_releases),
      (''get_release_health'', get_release_health),
      (''get_issue'', get_issue),
      (''get_release_issues'', get_release_issues)]"

definition Object_keys :: "(string \<times> 'a) list \<Rightarrow> string list" where
  "Object_keys obj = map fst obj"

definition inspect_sentry_exec :: "process \<Rightarrow> js_value io" where
  "inspect_sentry_exec w =
     return (JObject
       [(''configuration'', JObject
           [(''baseUrl'', JString (SENTRY_BASE_URL w)),
            (''authTokenConfigured'', JBool (SENTRY_AUTH_TOKEN w \<noteq> [])),
            (''defaultOrg'', JString (SENTRY_ORG_SLUG w))]),
        (''capabilities'',
           JArray (map JString (filter (\<lambda>k. k \<noteq> ''inspect_sentry'') (Object_keys tools)))),
        (''environment'', JObject
           [(''nodeVersion'', nodeVersion w),
            (''platform'', platform w),
            (''memoryUsage'', memoryUsage w)])])"

text \<open>
  \<^verbatim>\<open>release.version.includes('mobile')\<close>: the string method on a string, the array method
  on an array, a TypeError on anything else.
\<close>

fun includes_method :: "js_value \<Rightarrow> string \<Rightarrow> js_error + bool" where
  "includes_method (JString s) p = Inr (includes_str s p)"
| "includes_method (JArray xs) p = Inr (JString p \<in> set xs)"
| "includes_method JUndefined p = Inl (cannot_read ''undefined'' ''includes'')"
| "includes_method JNull p = Inl (cannot_read ''null'' ''includes'')"
| "includes_method v p = Inl (TypeError ''release.version.includes is not a function'')"

definition recent_entry :: "js_value \<Rightarrow> js_error + js_value" where
  "recent_entry release =
     and_then (member release ''version'') (\<lambda>v.
     and_then (member release ''dateCreated'') (\<lambda>d.
     and_then (member release ''newGroups'') (\<lambda>n.
     and_then (includes_method v ''mobile'') (\<lambda>mobile.
       Inr (JObject
         [(''version'', v), (''date'', d), (''new_issues'', n),
          (''type'', JString (if mobile then ''mobile'' else ''desktop''))])))))"

definition list_recent_releases_exec ::
    "process \<Rightarrow> string \<Rightarrow> string option \<Rightarrow> js_number option \<Rightarrow> js_value io" where
  "list_recent_releases_exec w project_slug org_slug params_count =
     (let orgSlug = or_else org_slug (SENTRY_ORG_SLUG w);
          n = (case params_count of
                 None \<Rightarrow> Num 5
               | Some c \<Rightarrow> if truthy (JNumber c) then c else Num 5)
      in await (getSortedReleases w orgSlug project_slug) (\<lambda>releases.
           sync (and_then (map_array recent_entry (slice0 releases n)) (\<lambda>entries.
             Inr (JArray entries)))))"

definition get_releases_exec :: "process \<Rightarrow> string \<Rightarrow> string option \<Rightarrow> js_value io" where
  "get_releases_exec w project_slug org_slug =
     (let orgSlug = or_else org_slug (SENTRY_ORG_SLUG w)
      in await (getSortedReleases w orgSlug project_slug) (\<lambda>releases. return (JArray releases)))"

definition get_release_health_exec ::
    "process \<Rightarrow> string \<Rightarrow> string option \<Rightarrow> string option \<Rightarrow> js_value io" where
  "get_release_health_exec w project_slug org_slug release_version =
     (let orgSlug = or_else org_slug (SENTRY_ORG_SLUG w) in
      await (case release_version of
               None \<Rightarrow> getLatestReleaseVersion w orgSlug project_slug
             | Some v \<Rightarrow> if v = [] then getLatestReleaseVersion w orgSlug project_slug
                         else return (JString v))
        (\<lambda>releaseVersion.
      let healthUrl = SENTRY_BASE_URL w @ ''projects/'' @ orgSlug @ ''/'' @ project_slug @ ''/releases/''
                        @ encodeURIComponent w (String releaseVersion) @ ''/'' in
      await (axios_get w healthUrl []) (\<lambda>response.
        sync (and_then (member (data response) ''new_groups'') (\<lambda>g.
              and_then (member (data response) ''crash_free_rate'') (\<lambda>c.
              and_then (member (data response) ''sessions'') (\<lambda>n.
              and_then (member (data response) ''stats'') (\<lambda>t.
                Inr (JObject
                  [(''version'', releaseVersion), (''new_issues'', g), (''crash_free_rate'', c),
                   (''sessions'', n), (''stats'', t)])))))))))"

definition issue_summary :: "js_value \<Rightarrow> js_error + js_value" where
  "issue_summary issue =
     and_then (member issue ''id'') (\<lambda>i.
     and_then (member issue ''title'') (\<lambda>t.
     and_then (member issue ''permalink'') (\<lambda>p.
       Inr (JObject [(''id'', i), (''title'', t), (''permalink'', p)]))))"

definition get_issue_exec :: "process \<Rightarrow> string \<Rightarrow> string \<Rightarrow> string \<Rightarrow> js_value io" where
  "get_issue_exec w issue_id org_slug project_slug =
     await (axios_get w (''/issues/'' @ issue_id @ ''/'') []) (\<lambda>response.
       sync (issue_summary (data response)))"

text \<open>\<^verbatim>\<open>issues.data.map(...)\<close>: a body that is no array has no \<^verbatim>\<open>map\<close> method.\<close>

fun issue_summaries :: "js_value \<Rightarrow> js_error + js_value" where
  "issue_summaries (JArray xs) = and_then (map_array issue_summary xs) (\<lambda>ys. Inr (JArray ys))"
| "issue_summaries JUndefined = Inl (cannot_read ''undefined'' ''map'')"
| "issue_summaries JNull = Inl (cannot_read ''null'' ''map'')"
| "issue_summaries v = Inl (TypeError ''issues.data.map is not a function'')"

text \<open>
  The test \<^verbatim>\<open>!data || !Array.isArray(data) || data.length === 0\<close> of
  \<^verbatim>\<open>get_release_issues\<close>.
\<close>

fun no_releases :: "js_value \<Rightarrow> bool" where
  "no_releases (JArray xs) = (xs = [])"
| "no_releases v = True"

definition get_release_issues_exec ::
    "process \<Rightarrow> string \<Rightarrow> string option \<Rightarrow> string option \<Rightarrow> js_value io" where
  "get_release_issues_exec w project_slug org_slug release_version =
     (let orgSlug = or_else org_slug (SENTRY_ORG_SLUG w);
          releasesUrl = SENTRY_BASE_URL w @ ''projects/'' @ orgSlug @ ''/'' @ project_slug @ ''/releases/'';
          latest =
            await (axios_get w releasesUrl []) (\<lambda>releasesResponse.
              if no_releases (data releasesResponse)
              then throw (Error (''No releases found for project '' @ project_slug))
              else sync (and_then (element0 (data releasesResponse)) (\<lambda>x. member x ''version'')))
      in
      await (case release_version of
               None \<Rightarrow> latest
             | Some v \<Rightarrow> if v = [] then latest else return (JString v))
        (\<lambda>releaseVersion.
      if \<not> truthy releaseVersion then throw (Error ''Could not determine release version.'')
      else
        let projectUrl = SENTRY_BASE_URL w @ ''projects/'' @ orgSlug @ ''/'' @ project_slug @ ''/'' in
        await (axios_get w projectUrl []) (\<lambda>project.
        let issuesUrl = SENTRY_BASE_URL w @ ''organizations/'' @ orgSlug @ ''/issues/'' in
        await (sync (member (data project) ''id'')) (\<lambda>project_id.
        let issuesParams =
              [(''project'', project_id),
               (''query'', JString (''release:'' @ [CHR 0x22] @ String releaseVersion @ [CHR 0x22]))] in
        await (axios_get w issuesUrl issuesParams) (\<lambda>issues.
          sync (issue_summaries (data issues)))))))"

section \<open>The capability descriptor\<close>

record property_schema =
  schema_type :: string
  schema_description :: "string option"

record input_schema =
  properties :: "(string \<times> property_schema) list"
  required :: "string list"

record tool_definition =
  description :: string
  inputSchema :: input_schema

definition string_property :: property_schema where
  "string_property = \<lparr>schema_type = ''string'', schema_description = None\<rparr>"

definition serverCapabilities_tools :: "process \<Rightarrow> (string \<times> tool_definition) list" where
  "serverCapabilities_tools w =
     [(''inspect_sentry'',
        \<lparr>description = ''Inspect server configuration and capabilities'',
         inputSchema = \<lparr>properties = [], required = []\<rparr>\<rparr>),
      (''list_recent_releases'',
        \<lparr>description = ''List most recent releases with issue counts'',
         inputSchema =
           \<lparr>properties =
              [(''project_slug'', string_property), (''org_slug'', string_property),
               (''count'', \<lparr>schema_type = ''number'', schema_description = None\<rparr>)],
            required = [''project_slug'']\<rparr>\<rparr>),
      (''get_releases'',
        \<lparr>description = ''Get all releases sorted by date (newest first)'',
         inputSchema =
           \<lparr>properties = [(''project_slug'', string_property), (''org_slug'', string_property)],
            required = [''project_slug'']\<rparr>\<rparr>),
      (''get_release_health'',
        \<lparr>description = ''Get health metrics for a release'',
         inputSchema =
           \<lparr>properties =
              [(''project_slug'', string_property), (''org_slug'', string_property),
               (''release_version'', string_property)],
            required = [''project_slug'']\<rparr>\<rparr>),
      (''get_issue'',
        \<lparr>description = ''Get a Sentry issue by ID'',
         inputSchema =
           \<lparr>properties =
              [(''issue_id'', string_property), (''org_slug'', string_property),
               (''project_slug'', string_property)],
            required = [''issue_id'', ''org_slug'', ''project_slug'']\<rparr>\<rparr>),
      (''get_release_issues'',
        \<lparr>description = ''Get issues from a specific release (defaults to latest)'',
         inputSchema =
           \<lparr>properties =
              [(''project_slug'',
                  \<lparr>schema_type = ''string'',
                   schema_description = Some (''Project slug (e.g., '' @ [CHR 0x27] @ ''renaissance'' @ [CHR 0x27] @ '')'')\<rparr>),
               (''org_slug'',
                  \<lparr>schema_type = ''string'',
                   schema_description =
                     Some (''Organization slug (defaults to SENTRY_ORG_SLUG: '' @ SENTRY_ORG_SLUG w @ '')'')\<rparr>),
               (''release_version'',
                  \<lparr>schema_type = ''string'',
                   schema_description = Some ''Optional: Specific release version (defaults to latest)''\<rparr>)],
            required = [''project_slug'']\<rparr>\<rparr>)]"

text \<open>The handler of the list-tools request: one entry per tool definition.\<close>

definition ListToolsRequest_handler :: "process \<Rightarrow> (string \<times> string \<times> input_schema) list" where
  "ListToolsRequest_handler w =
     map (\<lambda>(name, definition). (name, description definition, inputSchema definition))
       (serverCapabilities_tools w)"

section \<open>The dispatcher\<close>

text \<open>
  The SDK parses a call-tool request against its schema before the handler runs: the name
  is a string, the arguments are absent or an object.
\<close>

record CallToolRequest =
  name :: string
  arguments :: "(string \<times> js_value) list option"

record content_block =
  block_type :: string
  block_text :: "string option"

text \<open>
  The result envelope. The handler writes \<^verbatim>\<open>isError\<close> only in its catch clause; \<open>None\<close>
  is the absent field, which the protocol reads as false.
\<close>

record CallToolResult =
  meta :: "(string \<times> js_value) list"
  content :: "content_block list"
  isError :: "bool option"

text \<open>
  \<^verbatim>\<open>tools[name]\<close> is truthy for the six own keys of \<^verbatim>\<open>tools\<close>, and for the names it
  inherits from \<^verbatim>\<open>Object.prototype\<close>.
\<close>

definition Object_prototype_keys :: "string list" where
  "Object_prototype_keys =
     [''constructor'', ''__defineGetter__'', ''__defineSetter__'', ''hasOwnProperty'',
      ''__lookupGetter__'', ''__lookupSetter__'', ''isPrototypeOf'', ''propertyIsEnumerable'',
      ''toString'', ''valueOf'', ''__proto__'', ''toLocaleString'']"

definition registered :: "string \<Rightarrow> bool" where
  "registered n = (n \<in> set (Object_keys tools) \<or> n \<in> set Object_prototype_keys)"

text \<open>
  The test \<^verbatim>\<open>!args || typeof args !== 'object' || !('k' in args) || ...\<close> over the
  names \<open>ks\<close>.
\<close>

definition lacks :: "(string \<times> js_value) list option \<Rightarrow> string list \<Rightarrow> bool" where
  "lacks args ks = (case args of None \<Rightarrow> True | Some a \<Rightarrow> \<exists>k \<in> set ks. \<not> has_key k a)"

text \<open>
  \<^verbatim>\<open>args.k ? String(args.k) : undefined\<close>,
  \<^verbatim>\<open>args.org_slug ? String(args.org_slug) : SENTRY_ORG_SLUG\<close> and
  \<^verbatim>\<open>args.count ? Number(args.count) : undefined\<close>.
\<close>

definition string_or_undefined :: "(string \<times> js_value) list \<Rightarrow> string \<Rightarrow> js_error + string option" where
  "string_or_undefined a k =
     (if truthy (own a k) then and_then (ToString (own a k)) (\<lambda>s. Inr (Some s)) else Inr None)"

definition string_or_default :: "(string \<times> js_value) list \<Rightarrow> string \<Rightarrow> string \<Rightarrow> js_error + string" where
  "string_or_default a k d = (if truthy (own a k) then ToString (own a k) else Inr d)"

definition number_or_undefined ::
    "process \<Rightarrow> (string \<times> js_value) list \<Rightarrow> string \<Rightarrow> js_error + js_number option" where
  "number_or_undefined w a k =
     (if truthy (own a k) then and_then (ToNumber (StringToNumber w) (own a k)) (\<lambda>n. Inr (Some n))
      else Inr None)"

text \<open>
  The body of the handler's try block up to the assignment of \<^verbatim>\<open>result\<close>. The fields of
  the parameter object are evaluated in the order they are written, before \<^verbatim>\<open>exec\<close> is
  called.
\<close>

definition invoke :: "process \<Rightarrow> CallToolRequest \<Rightarrow> js_value io" where
  "invoke w request =
     (let args = arguments request; a = (case args of None \<Rightarrow> [] | Some kvs \<Rightarrow> kvs) in
      if name request = ''list_recent_releases'' then
        if lacks args [''project_slug'']
        then throw (Error ''Invalid arguments for list_recent_releases - requires project_slug'')
        else
          await (sync (ToString (own a ''project_slug''))) (\<lambda>project_slug.
          await (sync (string_or_undefined a ''org_slug'')) (\<lambda>org_slug.
          await (sync (number_or_undefined w a ''count'')) (\<lambda>params_count.
            list_recent_releases_exec w project_slug org_slug params_count)))
      else if name request = ''get_releases'' then
        if lacks args [''project_slug'']
        then throw (Error ''Invalid arguments for get_releases - requires project_slug'')
        else
          await (sync (ToString (own a ''project_slug''))) (\<lambda>project_slug.
          await (sync (string_or_undefined a ''org_slug'')) (\<lambda>org_slug.
            get_releases_exec w project_slug org_slug))
      else if name request = ''get_issue'' then
        if lacks args [''issue_id'', ''org_slug'', ''project_slug'']
        then throw (Error ''Invalid arguments for get_issue - requires issue_id, org_slug and project_slug'')
        else
          await (sync (ToString (own a ''issue_id''))) (\<lambda>issue_id.
          await (sync (ToString (own a ''org_slug''))) (\<lambda>org_slug.
          await (sync (ToString (own a ''project_slug''))) (\<lambda>project_slug.
            get_issue_exec w issue_id org_slug project_slug)))
      else if name request = ''get_release_issues'' then
        if lacks args [''project_slug'']
        then throw (Error ''Invalid arguments for get_release_issues - requires project_slug'')
        else
          await (sync (ToString (own a ''project_slug''))) (\<lambda>project_slug.
          await (sync (string_or_default a ''org_slug'' (SENTRY_ORG_SLUG w))) (\<lambda>org_slug.
            get_release_issues_exec w project_slug (Some org_slug) None))
      else if name request = ''inspect_sentry'' then
        inspect_sentry_exec w
      else if name request = ''get_release_health'' then
        if lacks args [''project_slug'']
        then throw (Error ''Invalid arguments for get_release_health - requires project_slug'')
        else
          await (sync (ToString (own a ''project_slug''))) (\<lambda>project_slug.
          await (sync (string_or_default a ''org_slug'' (SENTRY_ORG_SLUG w))) (\<lambda>org_slug.
          await (sync (string_or_undefined a ''release_version'')) (\<lambda>release_version.
            get_release_health_exec w project_slug (Some org_slug) release_version)))
      else throw (Error ''Unknown tool''))"

definition success_result :: "js_value \<Rightarrow> CallToolResult" where
  "success_result result =
     \<lparr>meta = [],
      content = [\<lparr>block_type = ''text'', block_text = JSON_stringify result\<rparr>],
      isError = None\<rparr>"

definition error_result :: "js_error \<Rightarrow> CallToolResult" where
  "error_result error =
     \<lparr>meta = [],
      content =
        [\<lparr>block_type = ''text'',
          block_text = JSON_stringify (JObject
            [(''error'', JString ''Failed to execute tool''),
             (''details'', JString (message error))])\<rparr>],
      isError = Some True\<rparr>"

text \<open>
  The handler of the call-tool request. Its result is the envelope it returns (\<open>Inr\<close>), or
  the error it throws to its caller (\<open>Inl\<close>): the name test stands before the try block.
\<close>

definition CallToolRequest_handler :: "process \<Rightarrow> CallToolRequest \<Rightarrow> CallToolResult io" where
  "CallToolRequest_handler w request =
     (if name request = [] \<or> \<not> registered (name request) then throw (Error ''Tool not found'')
      else (\<lambda>s. case invoke w request s of
                  (Inr result, s') \<Rightarrow> (Inr (success_result result), s')
                | (Inl error, s') \<Rightarrow> (Inr (error_result error), s')))"

section \<open>Notions used to state the properties\<close>

text \<open>
  An array element is \<^emph>\<open>dated\<close> when it is neither null nor undefined and its
  \<^verbatim>\<open>dateCreated\<close> parses to a time; \<open>release_time\<close> is that time in milliseconds.
  \<open>field x k\<close> is the value of \<^verbatim>\<open>x.k\<close> for such an element, and \<open>projected x\<close> is
  the element cut down to the three properties of a release.
\<close>

definition dated :: "process \<Rightarrow> js_value \<Rightarrow> bool" where
  "dated w x =
     (case member x ''dateCreated'' of
        Inl e \<Rightarrow> False
      | Inr d \<Rightarrow> (case Date_getTime w d of Num t \<Rightarrow> True | _ \<Rightarrow> False))"

definition release_time :: "process \<Rightarrow> js_value \<Rightarrow> int" where
  "release_time w x =
     (case member x ''dateCreated'' of
        Inl e \<Rightarrow> 0
      | Inr d \<Rightarrow> (case Date_getTime w d of Num t \<Rightarrow> t | _ \<Rightarrow> 0))"

definition field :: "js_value \<Rightarrow> string \<Rightarrow> js_value" where
  "field x k = (case member x k of Inl e \<Rightarrow> JUndefined | Inr v \<Rightarrow> v)"

definition projected :: "js_value \<Rightarrow> js_value" where
  "projected x =
     JObject [(''version'', field x ''version''), (''dateCreated'', field x ''dateCreated''),
              (''newGroups'', field x ''newGroups'')]"

section \<open>Example processes\<close>

text \<open>
  A configured process in front of a given upstream server, two releases (the second one
  newer), and three servers: one that answers every request with the same body, one that
  fails a number of attempts first, and one that serves the release list of project
  \<^verbatim>\<open>web\<close> of organisation \<^verbatim>\<open>acme\<close>, its project record and its issues.
\<close>

definition example_getTime :: "js_value \<Rightarrow> js_number" where
  "example_getTime x =
     (if x = JString ''2023-10-26T15:00:00Z'' then Num 1698332400000
      else if x = JString ''2023-10-27T10:30:00Z'' then Num 1698402600000
      else NaN)"

definition example_process :: "(nat \<Rightarrow> string \<Rightarrow> (string \<times> js_value) list \<Rightarrow> attempt) \<Rightarrow> process" where
  "example_process server =
     \<lparr>SENTRY_AUTH_TOKEN = ''secret'',
      SENTRY_BASE_URL = ''https://sentry.io/api/0/'',
      SENTRY_ORG_SLUG = ''acme'',
      upstream = server,
      StringToNumber = (\<lambda>s. NaN),
      Date_getTime = example_getTime,
      encodeURIComponent = (\<lambda>s. s),
      nodeVersion = JString ''v18.12.0'',
      platform = JString ''linux'',
      memoryUsage = JObject []\<rparr>"

definition ok :: "js_value \<Rightarrow> attempt" where
  "ok body = Fulfilled \<lparr>status = 200, data = body\<rparr>"

definition release_a :: js_value where
  "release_a =
     JObject [(''version'', JString ''a''), (''dateCreated'', JString ''2023-10-26T15:00:00Z''),
              (''newGroups'', JNumber (Num 2)), (''shortVersion'', JString ''a'')]"

definition release_b :: js_value where
  "release_b =
     JObject [(''version'', JString ''b''), (''dateCreated'', JString ''2023-10-27T10:30:00Z''),
              (''newGroups'', JNumber (Num 0)), (''shortVersion'', JString ''b'')]"

definition issue_7 :: js_value where
  "issue_7 =
     JObject [(''id'', JString ''7''), (''title'', JString ''Boom''),
              (''permalink'', JString ''https://sentry.io/acme/issues/7/''),
              (''status'', JString ''unresolved'')]"

definition serving :: "js_value \<Rightarrow> nat \<Rightarrow> string \<Rightarrow> (string \<times> js_value) list \<Rightarrow> attempt" where
  "serving body n u ps = ok body"

definition failing :: "nat \<Rightarrow> js_value \<Rightarrow> nat \<Rightarrow> string \<Rightarrow> (string \<times> js_value) list \<Rightarrow> attempt" where
  "failing k body n u ps =
     (if n < k then Rejected (''Request failed with status code 50'' @ decimal (int n)) else ok body)"

definition sentry :: "js_value \<Rightarrow> nat \<Rightarrow> string \<Rightarrow> (string \<times> js_value) list \<Rightarrow> attempt" where
  "sentry releases n u ps =
     (if u = ''https://sentry.io/api/0/projects/acme/web/releases/'' \<or> u = ''projects/acme/web/releases/''
      then ok releases
      else if u = ''https://sentry.io/api/0/projects/acme/web/''
      then ok (JObject [(''id'', JString ''89''), (''slug'', JString ''web'')])
      else if u = ''https://sentry.io/api/0/organizations/acme/issues/''
      then ok (JArray [issue_7])
      else Rejected ''Request failed with status code 404'')"

section \<open>Properties of the HTTP client\<close>

lemmas io_defs = return_def throw_def await_def sync_def and_then_def

declare axiosInstance.simps [simp del]

lemma sent_append [simp]: "sent (s @ t) = sent s + sent t"
  by (simp add: sent_def)

lemma sent_Cons_Sent [simp]: "sent (Sent u ps # s) = Suc (sent s)"
  by (simp add: sent_def)

lemma sent_Cons_Slept [simp]: "sent (Slept d # s) = sent s"
  by (simp add: sent_def)

lemma sent_Nil [simp]: "sent [] = 0"
  by (simp add: sent_def)

lemma attempt_4:
  "axiosInstance w \<lparr>url = u, params = ps, retry = 3, retryDelay = (\<lambda>retryCount. retryCount * 1000),
      retryCount = Some 3\<rparr> s =
     (case upstream w (sent s) u ps of
        Fulfilled r \<Rightarrow> (Inr r, s @ [Sent u ps])
      | Rejected m \<Rightarrow> (Inl (AxiosError m), s @ [Sent u ps]))"
  by (subst axiosInstance.simps) (simp add: retry_interceptor_def split: attempt.splits)

lemma attempt_3:
  "axiosInstance w \<lparr>url = u, params = ps, retry = 3, retryDelay = (\<lambda>retryCount. retryCount * 1000),
      retryCount = Some 2\<rparr> s =
     (case upstream w (sent s) u ps of
        Fulfilled r \<Rightarrow> (Inr r, s @ [Sent u ps])
      | Rejected m \<Rightarrow>
          axiosInstance w \<lparr>url = u, params = ps, retry = 3,
              retryDelay = (\<lambda>retryCount. retryCount * 1000), retryCount = Some 3\<rparr>
            (s @ [Sent u ps, Slept 3000]))"
  by (subst axiosInstance.simps) (simp add: retry_interceptor_def split: attempt.splits)

lemma attempt_2:
  "axiosInstance w \<lparr>url = u, params = ps, retry = 3, retryDelay = (\<lambda>retryCount. retryCount * 1000),
      retryCount = Some 1\<rparr> s =
     (case upstream w (sent s) u ps of
        Fulfilled r \<Rightarrow> (Inr r, s @ [Sent u ps])
      | Rejected m \<Rightarrow>
          axiosInstance w \<lparr>url = u, params = ps, retry = 3,
              retryDelay = (\<lambda>retryCount. retryCount * 1000), retryCount = Some 2\<rparr>
            (s @ [Sent u ps, Slept 2000]))"
  by (subst axiosInstance.simps)
     (simp add: retry_interceptor_def numeral_2_eq_2 [symmetric] split: attempt.splits)

lemma attempt_1:
  "axiosInstance w \<lparr>url = u, params = ps, retry = 3, retryDelay = (\<lambda>retryCount. retryCount * 1000),
      retryCount = None\<rparr> s =
     (case upstream w (sent s) u ps of
        Fulfilled r \<Rightarrow> (Inr r, s @ [Sent u ps])
      | Rejected m \<Rightarrow>
          axiosInstance w \<lparr>url = u, params = ps, retry = 3,
              retryDelay = (\<lambda>retryCount. retryCount * 1000), retryCount = Some 1\<rparr>
            (s @ [Sent u ps, Slept 1000]))"
  by (subst axiosInstance.simps) (simp add: retry_interceptor_def split: attempt.splits)

lemma axios_get_cases:
  "axios_get w u ps s =
    (case upstream w (sent s) u ps of
       Fulfilled r \<Rightarrow> (Inr r, s @ [Sent u ps])
     | Rejected m0 \<Rightarrow>
        (case upstream w (sent s + 1) u ps of
           Fulfilled r \<Rightarrow> (Inr r, s @ [Sent u ps, Slept 1000, Sent u ps])
         | Rejected m1 \<Rightarrow>
            (case upstream w (sent s + 2) u ps of
               Fulfilled r \<Rightarrow> (Inr r, s @ [Sent u ps, Slept 1000, Sent u ps, Slept 2000, Sent u ps])
             | Rejected m2 \<Rightarrow>
                (case upstream w (sent s + 3) u ps of
                   Fulfilled r \<Rightarrow>
                     (Inr r, s @ [Sent u ps, Slept 1000, Sent u ps, Slept 2000, Sent u ps, Slept 3000, Sent u ps])
                 | Rejected m3 \<Rightarrow>
                     (Inl (AxiosError m3),
                      s @ [Sent u ps, Slept 1000, Sent u ps, Slept 2000, Sent u ps, Slept 3000, Sent u ps])))))"
proof -
  let ?e = "Sent u ps"
  let ?c = "\<lambda>n. \<lparr>url = u, params = ps, retry = 3, retryDelay = (\<lambda>retryCount. retryCount * 1000),
                   retryCount = n\<rparr>"
  have k1: "sent (s @ [?e, Slept 1000]) = sent s + 1"
    and k2: "sent (s @ [?e, Slept 1000, ?e, Slept 2000]) = sent s + 2"
    and k3: "sent (s @ [?e, Slept 1000, ?e, Slept 2000, ?e, Slept 3000]) = sent s + 3"
    by simp_all
  have a4: "axiosInstance w (?c (Some 3)) (s @ [?e, Slept 1000, ?e, Slept 2000, ?e, Slept 3000]) =
      (case upstream w (sent s + 3) u ps of
         Fulfilled r \<Rightarrow> (Inr r, s @ [?e, Slept 1000, ?e, Slept 2000, ?e, Slept 3000, ?e])
       | Rejected m \<Rightarrow> (Inl (AxiosError m), s @ [?e, Slept 1000, ?e, Slept 2000, ?e, Slept 3000, ?e]))"
    unfolding attempt_4 k3 by (simp split: attempt.split)
  have a3: "axiosInstance w (?c (Some 2)) (s @ [?e, Slept 1000, ?e, Slept 2000]) =
      (case upstream w (sent s + 2) u ps of
         Fulfilled r \<Rightarrow> (Inr r, s @ [?e, Slept 1000, ?e, Slept 2000, ?e])
       | Rejected m \<Rightarrow>
           axiosInstance w (?c (Some 3)) (s @ [?e, Slept 1000, ?e, Slept 2000, ?e, Slept 3000]))"
    unfolding attempt_3 k2 by (simp split: attempt.split)
  have a2: "axiosInstance w (?c (Some 1)) (s @ [?e, Slept 1000]) =
      (case upstream w (sent s + 1) u ps of
         Fulfilled r \<Rightarrow> (Inr r, s @ [?e, Slept 1000, ?e])
       | Rejected m \<Rightarrow> axiosInstance w (?c (Some 2)) (s @ [?e, Slept 1000, ?e, Slept 2000]))"
    unfolding attempt_2 k1 by (simp split: attempt.split)
  show ?thesis
    unfolding axios_get_def request_config_def attempt_1 a2 a3 a4 ..
qed

lemma retries_ex:
  "\<exists>j\<le>3. (\<forall>i<j. \<exists>m. upstream w (sent s + i) u ps = Rejected m) \<and>
      (j < 3 \<longrightarrow> (\<exists>r. upstream w (sent s + j) u ps = Fulfilled r)) \<and>
      axios_get w u ps s =
        (case upstream w (sent s + j) u ps of
           Fulfilled r \<Rightarrow> Inr r
         | Rejected m \<Rightarrow> Inl (AxiosError m),
         s @ Sent u ps # concat (map (\<lambda>n. [Slept (n * 1000), Sent u ps]) [1..<Suc j]))"
proof (cases "upstream w (sent s) u ps")
  case (Fulfilled r)
  then show ?thesis
    by (intro exI [of _ 0]) (simp add: axios_get_cases)
next
  case r0: (Rejected m0)
  show ?thesis
  proof (cases "upstream w (sent s + 1) u ps")
    case (Fulfilled r)
    with r0 show ?thesis
      by (intro exI [of _ 1]) (simp add: axios_get_cases)
  next
    case r1: (Rejected m1)
    show ?thesis
    proof (cases "upstream w (sent s + 2) u ps")
      case (Fulfilled r)
      with r0 r1 show ?thesis
        by (intro exI [of _ 2]) (auto simp add: axios_get_cases less_Suc_eq numeral_2_eq_2)
    next
      case r2: (Rejected m2)
      have "\<forall>i<3. \<exists>m. upstream w (sent s + i) u ps = Rejected m"
        using r0 r1 r2 by (auto simp: less_Suc_eq numeral_3_eq_3 numeral_2_eq_2)
      moreover have "[1..<Suc 3] = [1, 2, 3]"
        by (simp add: upt_rec)
      ultimately show ?thesis
        using r0 r1 r2
        by (intro exI [of _ 3]) (simp add: axios_get_cases split: attempt.splits)
    qed
  qed
qed

section \<open>Properties of sorting and projection\<close>

lemma dated_member:
  "dated w x \<Longrightarrow> member x k = Inr (field x k)"
  by (cases x) (auto simp: dated_def field_def)

lemma dated_time:
  "dated w x \<Longrightarrow> Date_getTime w (field x ''dateCreated'') = Num (release_time w x)"
  by (cases x) (auto simp: dated_def field_def release_time_def split: js_number.splits)

lemma newest_first_dated:
  "dated w a \<Longrightarrow> dated w b \<Longrightarrow>
   newest_first w a b = Inr (Num (release_time w b - release_time w a))"
  by (simp add: newest_first_def and_then_def dated_member dated_time)

lemma insert_sorted_dated:
  "dated w x \<Longrightarrow> \<forall>y\<in>set ys. dated w y \<Longrightarrow>
   insert_sorted (newest_first w) x ys = Inr (insort_key (\<lambda>x. - release_time w x) x ys)"
  by (induction ys) (simp_all add: newest_first_dated)

lemma sort_array_dated:
  "\<forall>x\<in>set xs. dated w x \<Longrightarrow>
   sort_array (newest_first w) xs = Inr (sort_key (\<lambda>x. - release_time w x) xs)"
  by (induction xs) (simp_all add: insert_sorted_dated)

lemma project_release_dated: "dated w x \<Longrightarrow> project_release x = Inr (projected x)"
  by (simp add: project_release_def projected_def and_then_def dated_member)

lemma map_array_total:
  "\<forall>x\<in>set xs. f x = Inr (g x) \<Longrightarrow> map_array f xs = Inr (map g xs)"
  by (induction xs) simp_all

lemma sorted_projection_dated:
  assumes "\<forall>x\<in>set xs. dated w x"
  shows "sorted_projection w (JArray xs) =
         Inr (map projected (sort_key (\<lambda>x. - release_time w x) xs))"
proof -
  have "\<forall>x\<in>set (sort_key (\<lambda>x. - release_time w x) xs). project_release x = Inr (projected x)"
    using assms by (auto intro: project_release_dated)
  then show ?thesis
    using assms by (simp add: sort_array_dated and_then_def map_array_total)
qed

lemma release_time_projected: "dated w x \<Longrightarrow> release_time w (projected x) = release_time w x"
  by (cases x) (simp_all add: dated_def release_time_def projected_def field_def own_def cannot_read_def)

lemma newest_first_sorted:
  assumes "\<forall>x\<in>set xs. dated w x"
  shows "sorted_wrt (\<lambda>a b. release_time w b \<le> release_time w a)
     (map projected (sort_key (\<lambda>x. - release_time w x) xs))"
proof -
  have "sorted (map (\<lambda>x. - release_time w x) (sort_key (\<lambda>x. - release_time w x) xs))"
    by (rule sorted_sort_key)
  then have "sorted_wrt (\<lambda>a b. release_time w b \<le> release_time w a)
     (sort_key (\<lambda>x. - release_time w x) xs)"
    by (simp add: sorted_map)
  then show ?thesis
    unfolding sorted_wrt_map
    by (rule sorted_wrt_mono_rel [rotated]) (use assms in \<open>simp add: release_time_projected\<close>)
qed

section \<open>Properties of the registry and the dispatcher\<close>

lemma tools_keys: "Object_keys tools =
  [''inspect_sentry'', ''list_recent_releases'', ''get_releases'', ''get_release_health'',
   ''get_issue'', ''get_release_issues'']"
  by (simp add: Object_keys_def tools_def)

lemma descriptor_keys: "map fst (serverCapabilities_tools w) =
  [''inspect_sentry'', ''list_recent_releases'', ''get_releases'', ''get_release_health'',
   ''get_issue'', ''get_release_issues'']"
  by (simp add: serverCapabilities_tools_def)

lemma registered_iff: "registered n \<longleftrightarrow> n \<in> set (Object_keys tools) \<or> n \<in> set Object_prototype_keys"
  by (simp add: registered_def)

lemma not_registered_empty: "\<not> registered []"
  by (simp add: registered_def tools_keys Object_prototype_keys_def)

lemma handler_unregistered:
  "\<not> registered (name request) \<Longrightarrow>
   CallToolRequest_handler w request s = (Inl (Error ''Tool not found''), s)"
  by (simp add: CallToolRequest_handler_def throw_def)

lemma handler_registered:
  "registered (name request) \<Longrightarrow>
   CallToolRequest_handler w request s =
     (case invoke w request s of
        (Inr result, s') \<Rightarrow> (Inr (success_result result), s')
      | (Inl error, s') \<Rightarrow> (Inr (error_result error), s'))"
  using not_registered_empty by (auto simp: CallToolRequest_handler_def)

lemma issue_summary_object: "issue_summary x = Inr v \<Longrightarrow> \<exists>kvs. v = JObject kvs"
  by (cases x) (auto simp: issue_summary_def and_then_def cannot_read_def)

lemma issue_summaries_array: "issue_summaries x = Inr v \<Longrightarrow> \<exists>xs. v = JArray xs"
  by (cases x) (auto simp: and_then_def split: sum.splits)

lemma inspect_sentry_object:
  "inspect_sentry_exec w s = (Inr v, s') \<Longrightarrow> \<exists>kvs. v = JObject kvs"
  by (auto simp: inspect_sentry_exec_def return_def)

lemma list_recent_releases_array:
  "list_recent_releases_exec w p org c s = (Inr v, s') \<Longrightarrow> \<exists>xs. v = JArray xs"
  by (auto simp: list_recent_releases_exec_def io_defs Let_def split: prod.splits sum.splits)

lemma get_releases_array:
  "get_releases_exec w p org s = (Inr v, s') \<Longrightarrow> \<exists>xs. v = JArray xs"
  by (auto simp: get_releases_exec_def io_defs Let_def split: prod.splits sum.splits)

lemma get_release_health_object:
  "get_release_health_exec w p org rv s = (Inr v, s') \<Longrightarrow> \<exists>kvs. v = JObject kvs"
  by (auto simp: get_release_health_exec_def io_defs Let_def split: prod.splits sum.splits)

lemma get_issue_object:
  "get_issue_exec w i org p s = (Inr v, s') \<Longrightarrow> \<exists>kvs. v = JObject kvs"
  by (auto simp: get_issue_exec_def io_defs dest: issue_summary_object split: prod.splits sum.splits)

lemma get_release_issues_array:
  "get_release_issues_exec w p org rv s = (Inr v, s') \<Longrightarrow> \<exists>xs. v = JArray xs"
  by (auto simp: get_release_issues_exec_def io_defs Let_def dest: issue_summaries_array
        split: prod.splits sum.splits if_splits)

lemma await_sync:
  "await (sync r) f s = (case r of Inl e \<Rightarrow> (Inl e, s) | Inr a \<Rightarrow> f a s)"
  by (simp add: await_def sync_def split: sum.splits)

lemma ToString_string [simp]: "ToString (JString t) = Inr t"
  by (simp add: ToString_def)

lemma own_string_has_key: "own a k = JString t \<Longrightarrow> has_key k a"
  by (auto simp: own_def has_key_def split: option.splits dest!: map_of_SomeD intro: rev_image_eqI)

lemma invoke_result:
  assumes "invoke w request s = (Inr v, s')"
  shows "(\<exists>kvs. v = JObject kvs) \<or> (\<exists>xs. v = JArray xs)"
  using assms
  by (auto simp: invoke_def Let_def throw_def await_sync
        dest: inspect_sentry_object list_recent_releases_array get_releases_array
          get_release_health_object get_issue_object get_release_issues_array
        split: if_splits sum.splits)

lemma stringify_result:
  "(\<exists>kvs. v = JObject kvs) \<or> (\<exists>xs. v = JArray xs) \<Longrightarrow> \<exists>t. JSON_stringify v = Some t"
  by auto

lemma registered_tools [simp]:
  "registered ''inspect_sentry''" "registered ''list_recent_releases''" "registered ''get_releases''"
  "registered ''get_release_health''" "registered ''get_issue''" "registered ''get_release_issues''"
  by (simp_all add: registered_def tools_keys)

lemma invalid_list_recent_releases:
  "\<not> has_key ''project_slug'' a \<Longrightarrow>
   invoke w \<lparr>name = ''list_recent_releases'', arguments = Some a\<rparr> s =
     (Inl (Error ''Invalid arguments for list_recent_releases - requires project_slug''), s)"
  by (simp add: invoke_def lacks_def throw_def)

lemma invalid_get_releases:
  "\<not> has_key ''project_slug'' a \<Longrightarrow>
   invoke w \<lparr>name = ''get_releases'', arguments = Some a\<rparr> s =
     (Inl (Error ''Invalid arguments for get_releases - requires project_slug''), s)"
  by (simp add: invoke_def lacks_def throw_def)

lemma invalid_get_release_health:
  "\<not> has_key ''project_slug'' a \<Longrightarrow>
   invoke w \<lparr>name = ''get_release_health'', arguments = Some a\<rparr> s =
     (Inl (Error ''Invalid arguments for get_release_health - requires project_slug''), s)"
  by (simp add: invoke_def lacks_def throw_def)

lemma invalid_get_release_issues:
  "\<not> has_key ''project_slug'' a \<Longrightarrow>
   invoke w \<lparr>name = ''get_release_issues'', arguments = Some a\<rparr> s =
     (Inl (Error ''Invalid arguments for get_release_issues - requires project_slug''), s)"
  by (simp add: invoke_def lacks_def throw_def)

lemma invalid_get_issue:
  "\<not> has_key ''issue_id'' a \<or> \<not> has_key ''org_slug'' a \<or> \<not> has_key ''project_slug'' a \<Longrightarrow>
   invoke w \<lparr>name = ''get_issue'', arguments = Some a\<rparr> s =
     (Inl (Error ''Invalid arguments for get_issue - requires issue_id, org_slug and project_slug''), s)"
  by (auto simp add: invoke_def lacks_def throw_def)

lemma names_project_slug:
  "includes_str ''Invalid arguments for list_recent_releases - requires project_slug'' ''project_slug''"
  "includes_str ''Invalid arguments for get_releases - requires project_slug'' ''project_slug''"
  "includes_str ''Invalid arguments for get_release_health - requires project_slug'' ''project_slug''"
  "includes_str ''Invalid arguments for get_release_issues - requires project_slug'' ''project_slug''"
  by simp_all

lemma names_get_issue:
  "includes_str ''Invalid arguments for get_issue - requires issue_id, org_slug and project_slug'' ''issue_id''"
  "includes_str ''Invalid arguments for get_issue - requires issue_id, org_slug and project_slug'' ''org_slug''"
  "includes_str ''Invalid arguments for get_issue - requires issue_id, org_slug and project_slug'' ''project_slug''"
  by simp_all

lemma descriptor_cases:
  assumes "map_of (serverCapabilities_tools w) n = Some d" and "k \<in> set (required (inputSchema d))"
  shows "(n = ''list_recent_releases'' \<or> n = ''get_releases'' \<or> n = ''get_release_health'' \<or>
          n = ''get_release_issues'') \<and> k = ''project_slug'' \<or>
         n = ''get_issue'' \<and> (k = ''issue_id'' \<or> k = ''org_slug'' \<or> k = ''project_slug'')"
  using assms by (auto simp: serverCapabilities_tools_def split: if_splits)

section \<open>The claimed properties\<close>

lemmas example_defs = example_process_def serving_def failing_def sentry_def ok_def

subsection \<open>C1: a name that is not registered\<close>

text \<open>
  The name test of the handler stands before its try block, so its
  \<^verbatim>\<open>throw new Error('Tool not found')\<close> is not caught: for a name outside the registry
  the handler returns no envelope. Here the request names an unknown tool and the handler
  throws.
\<close>

theorem C1_counterexample:
  "CallToolRequest_handler (example_process (serving JNull))
     \<lparr>name = ''delete_project'', arguments = Some []\<rparr> [] =
   (Inl (Error ''Tool not found''), [])"
  by (simp add: CallToolRequest_handler_def registered_def tools_keys Object_prototype_keys_def
        throw_def)

text \<open>
  C1, as the code has it: for every call-tool request whose name is neither a key of the
  tool registry nor a name the registry object inherits from \<^verbatim>\<open>Object.prototype\<close>
  (the empty name among them), the handler throws \<^verbatim>\<open>Error('Tool not found')\<close> to its
  caller, with no effect and no envelope; for every other request it returns a normal
  result envelope and throws nothing.
\<close>

theorem C1_unregistered_name_is_thrown:
  "(name request \<notin> set (Object_keys tools) \<and> name request \<notin> set Object_prototype_keys \<longrightarrow>
      CallToolRequest_handler w request s = (Inl (Error ''Tool not found''), s)) \<and>
   (name request \<in> set (Object_keys tools) \<or> name request \<in> set Object_prototype_keys \<longrightarrow>
      (\<exists>e s'. CallToolRequest_handler w request s = (Inr e, s')))"
proof (intro conjI impI)
  assume "name request \<notin> set (Object_keys tools) \<and> name request \<notin> set Object_prototype_keys"
  then have "\<not> registered (name request)" by (simp add: registered_iff)
  then show "CallToolRequest_handler w request s = (Inl (Error ''Tool not found''), s)"
    by (rule handler_unregistered)
next
  assume "name request \<in> set (Object_keys tools) \<or> name request \<in> set Object_prototype_keys"
  then have r: "registered (name request)" by (simp add: registered_iff)
  obtain r' s' where i: "invoke w request s = (r', s')" by (cases "invoke w request s")
  show "\<exists>e s'. CallToolRequest_handler w request s = (Inr e, s')"
    unfolding handler_registered [OF r] i by (cases r') simp_all
qed

theorem C1_witness:
  "CallToolRequest_handler (example_process (serving JNull))
     \<lparr>name = ''list_projects'', arguments = None\<rparr> [] = (Inl (Error ''Tool not found''), []) \<and>
   (\<exists>e s'. CallToolRequest_handler (example_process (serving JNull))
     \<lparr>name = ''get_releases'', arguments = None\<rparr> [] = (Inr e, s')) \<and>
   (\<exists>e s'. CallToolRequest_handler (example_process (serving JNull))
     \<lparr>name = ''toString'', arguments = None\<rparr> [] = (Inr e, s'))"
  using
    C1_unregistered_name_is_thrown
      [of "\<lparr>name = ''list_projects'', arguments = None\<rparr>" "example_process (serving JNull)" "[]"]
    C1_unregistered_name_is_thrown
      [of "\<lparr>name = ''get_releases'', arguments = None\<rparr>" "example_process (serving JNull)" "[]"]
    C1_unregistered_name_is_thrown
      [of "\<lparr>name = ''toString'', arguments = None\<rparr>" "example_process (serving JNull)" "[]"]
  by (simp add: tools_keys Object_prototype_keys_def)

subsection \<open>C7: the envelope\<close>

text \<open>
  C7: every envelope the handler returns holds exactly one content block, of type
  \<^verbatim>\<open>text\<close>, with a text. When the invocation succeeds with a value, the text is the JSON
  serialization of that value and the envelope carries no \<^verbatim>\<open>isError\<close> (which the protocol
  reads as false); when it fails, the envelope likewise holds one text block, and
  \<^verbatim>\<open>isError\<close> is true.
\<close>

theorem C7_single_text_block:
  "(\<forall>e s'. CallToolRequest_handler w request s = (Inr e, s') \<longrightarrow>
      (\<exists>t. content e = [\<lparr>block_type = ''text'', block_text = Some t\<rparr>])) \<and>
   (\<forall>v s'. registered (name request) \<and> invoke w request s = (Inr v, s') \<longrightarrow>
      CallToolRequest_handler w request s =
        (Inr \<lparr>meta = [], content = [\<lparr>block_type = ''text'', block_text = JSON_stringify v\<rparr>],
              isError = None\<rparr>, s')) \<and>
   (\<forall>err s'. registered (name request) \<and> invoke w request s = (Inl err, s') \<longrightarrow>
      (\<exists>t. CallToolRequest_handler w request s =
        (Inr \<lparr>meta = [], content = [\<lparr>block_type = ''text'', block_text = Some t\<rparr>],
              isError = Some True\<rparr>, s')))"
proof (intro conjI allI impI)
  fix e s'
  assume h: "CallToolRequest_handler w request s = (Inr e, s')"
  have r: "registered (name request)"
    using h handler_unregistered [of request w s] by auto
  obtain r' t' where i: "invoke w request s = (r', t')" by (cases "invoke w request s")
  show "\<exists>t. content e = [\<lparr>block_type = ''text'', block_text = Some t\<rparr>]"
  proof (cases r')
    case (Inl err)
    with h i show ?thesis by (auto simp add: handler_registered [OF r] error_result_def)
  next
    case (Inr v)
    with i obtain t where "JSON_stringify v = Some t"
      using invoke_result stringify_result by blast
    with h i Inr show ?thesis by (auto simp add: handler_registered [OF r] success_result_def)
  qed
next
  fix v s'
  assume "registered (name request) \<and> invoke w request s = (Inr v, s')"
  then show "CallToolRequest_handler w request s =
        (Inr \<lparr>meta = [], content = [\<lparr>block_type = ''text'', block_text = JSON_stringify v\<rparr>],
              isError = None\<rparr>, s')"
    by (simp add: handler_registered success_result_def)
next
  fix err s'
  assume "registered (name request) \<and> invoke w request s = (Inl err, s')"
  then show "\<exists>t. CallToolRequest_handler w request s =
        (Inr \<lparr>meta = [], content = [\<lparr>block_type = ''text'', block_text = Some t\<rparr>],
              isError = Some True\<rparr>, s')"
    by (simp add: handler_registered error_result_def)
qed

lemma get_issue_42:
  "invoke (example_process (serving issue_7))
     \<lparr>name = ''get_issue'',
      arguments = Some [(''issue_id'', JNumber (Num 7)), (''org_slug'', JString ''acme''),
                        (''project_slug'', JString ''web'')]\<rparr> [] =
   (Inr (JObject [(''id'', JString ''7''), (''title'', JString ''Boom''),
                  (''permalink'', JString ''https://sentry.io/acme/issues/7/'')]),
    [Sent ''/issues/7/'' []])"
  by (simp add: invoke_def lacks_def has_key_def own_def ToString_def get_issue_exec_def io_defs
        axios_get_cases example_defs issue_7_def issue_summary_def decimal_def digit_char_def)

theorem C7_witness:
  "CallToolRequest_handler (example_process (serving issue_7))
     \<lparr>name = ''get_issue'',
      arguments = Some [(''issue_id'', JNumber (Num 7)), (''org_slug'', JString ''acme''),
                        (''project_slug'', JString ''web'')]\<rparr> [] =
   (Inr \<lparr>meta = [],
         content = [\<lparr>block_type = ''text'',
                     block_text = JSON_stringify (JObject
                       [(''id'', JString ''7''), (''title'', JString ''Boom''),
                        (''permalink'', JString ''https://sentry.io/acme/issues/7/'')])\<rparr>],
         isError = None\<rparr>,
    [Sent ''/issues/7/'' []]) \<and>
   (\<exists>t. CallToolRequest_handler (example_process (serving issue_7))
     \<lparr>name = ''get_issue'', arguments = None\<rparr> [] =
   (Inr \<lparr>meta = [], content = [\<lparr>block_type = ''text'', block_text = Some t\<rparr>],
         isError = Some True\<rparr>, []))"
proof -
  let ?w = "example_process (serving issue_7)"
  let ?r = "\<lparr>name = ''get_issue'',
      arguments = Some [(''issue_id'', JNumber (Num 7)), (''org_slug'', JString ''acme''),
                        (''project_slug'', JString ''web'')]\<rparr>"
  let ?q = "\<lparr>name = ''get_issue'', arguments = None\<rparr>"
  have "invoke ?w ?q [] =
      (Inl (Error ''Invalid arguments for get_issue - requires issue_id, org_slug and project_slug''), [])"
    by (simp add: invoke_def lacks_def throw_def)
  with C7_single_text_block [of ?w ?r "[]"] C7_single_text_block [of ?w ?q "[]"] get_issue_42
  show ?thesis
    by (simp del: JSON_stringify.simps)
qed

subsection \<open>C8: a missing required argument\<close>

text \<open>
  C8: for every operation of the capability descriptor, every field \<open>k\<close> its schema
  requires and every argument object without \<open>k\<close>, the handler returns the error
  envelope (\<^verbatim>\<open>isError\<close> true) whose details message names \<open>k\<close>, and the events are
  unchanged: no request was sent, the operation's \<^verbatim>\<open>exec\<close> did not run.
\<close>

theorem C8_missing_required_field:
  assumes "map_of (serverCapabilities_tools w) n = Some d"
    and "k \<in> set (required (inputSchema d))"
    and "\<not> has_key k a"
  shows "\<exists>details.
    CallToolRequest_handler w \<lparr>name = n, arguments = Some a\<rparr> s =
      (Inr \<lparr>meta = [],
            content = [\<lparr>block_type = ''text'',
                        block_text = JSON_stringify (JObject
                          [(''error'', JString ''Failed to execute tool''),
                           (''details'', JString details)])\<rparr>],
            isError = Some True\<rparr>, s) \<and>
    includes_str details k"
proof -
  have "\<exists>details. invoke w \<lparr>name = n, arguments = Some a\<rparr> s = (Inl (Error details), s) \<and>
          includes_str details k \<and> registered n"
    using descriptor_cases [OF assms(1,2)] assms(3)
    by (elim disjE conjE)
       (simp_all only: invalid_list_recent_releases invalid_get_releases invalid_get_release_health
          invalid_get_release_issues invalid_get_issue names_project_slug names_get_issue
          registered_tools prod.inject sum.inject js_error.inject simp_thms ex_simps)
  then obtain details where i: "invoke w \<lparr>name = n, arguments = Some a\<rparr> s = (Inl (Error details), s)"
    and k: "includes_str details k" and r: "registered n" by blast
  have "registered (name \<lparr>name = n, arguments = Some a\<rparr>)" using r by simp
  from handler_registered [OF this, of w s] i k show ?thesis
    by (auto simp: error_result_def simp del: JSON_stringify.simps)
qed

theorem C8_witness:
  "\<exists>details.
    CallToolRequest_handler (example_process (serving issue_7))
       \<lparr>name = ''get_issue'',
        arguments = Some [(''issue_id'', JString ''7''), (''org_slug'', JString ''acme'')]\<rparr> [] =
      (Inr \<lparr>meta = [],
            content = [\<lparr>block_type = ''text'',
                        block_text = JSON_stringify (JObject
                          [(''error'', JString ''Failed to execute tool''),
                           (''details'', JString details)])\<rparr>],
            isError = Some True\<rparr>, []) \<and>
    includes_str details ''project_slug''"
proof -
  let ?w = "example_process (serving issue_7)"
  let ?d = "\<lparr>description = ''Get a Sentry issue by ID'',
         inputSchema =
           \<lparr>properties =
              [(''issue_id'', string_property), (''org_slug'', string_property),
               (''project_slug'', string_property)],
            required = [''issue_id'', ''org_slug'', ''project_slug'']\<rparr>\<rparr>"
  have d: "map_of (serverCapabilities_tools ?w) ''get_issue'' = Some ?d"
    by (simp add: serverCapabilities_tools_def)
  have k: "''project_slug'' \<in> set (required (inputSchema ?d))" by simp
  have a: "\<not> has_key ''project_slug'' [(''issue_id'', JString ''7''), (''org_slug'', JString ''acme'')]"
    by (simp add: has_key_def)
  show ?thesis
    by (rule C8_missing_required_field [OF d k a])
qed

subsection \<open>C9: registry and descriptor\<close>

text \<open>
  C9: the capability descriptor and the tool registry list the same six names, each once,
  and the capabilities that \<^verbatim>\<open>inspect_sentry\<close> returns are the registry's names without
  \<^verbatim>\<open>inspect_sentry\<close> itself.
\<close>

theorem C9_registry_matches_descriptor:
  "map fst (serverCapabilities_tools w) = Object_keys tools \<and>
   distinct (Object_keys tools) \<and>
   length (Object_keys tools) = 6 \<and>
   (\<exists>v. inspect_sentry_exec w s = (Inr v, s) \<and>
        member v ''capabilities'' =
          Inr (JArray (map JString
            [''list_recent_releases'', ''get_releases'', ''get_release_health'', ''get_issue'',
             ''get_release_issues'']))) \<and>
   set [''list_recent_releases'', ''get_releases'', ''get_release_health'', ''get_issue'',
        ''get_release_issues''] = set (Object_keys tools) - {''inspect_sentry''}"
  unfolding descriptor_keys tools_keys
  by (simp add: inspect_sentry_exec_def return_def tools_keys own_def) 

subsection \<open>C10: get_issue and the slugs it requires\<close>

lemma get_issue_invoke:
  assumes "own a ''issue_id'' = JString i" and "own a ''org_slug'' = JString org"
    and "own a ''project_slug'' = JString p"
  shows "invoke w \<lparr>name = ''get_issue'', arguments = Some a\<rparr> s =
         await (axios_get w (''/issues/'' @ i @ ''/'') [])
           (\<lambda>response. sync (issue_summary (data response))) s"
  using assms own_string_has_key [OF assms(1)] own_string_has_key [OF assms(2)]
    own_string_has_key [OF assms(3)]
  by (simp add: invoke_def lacks_def get_issue_exec_def await_sync)

text \<open>
  C10: two \<^verbatim>\<open>get_issue\<close> calls whose arguments hold the same \<^verbatim>\<open>issue_id\<close> string, and
  each an \<^verbatim>\<open>org_slug\<close> and a \<^verbatim>\<open>project_slug\<close> that are strings of any value, have the
  same outcome: the same requests sent and the same envelope. The one request goes to
  \<^verbatim>\<open>/issues/<issue_id>/\<close>.
\<close>

theorem C10_get_issue_ignores_slugs:
  assumes "own a1 ''issue_id'' = JString i" and "own a2 ''issue_id'' = JString i"
    and "own a1 ''org_slug'' = JString org1" and "own a1 ''project_slug'' = JString p1"
    and "own a2 ''org_slug'' = JString org2" and "own a2 ''project_slug'' = JString p2"
  shows "CallToolRequest_handler w \<lparr>name = ''get_issue'', arguments = Some a1\<rparr> s =
         CallToolRequest_handler w \<lparr>name = ''get_issue'', arguments = Some a2\<rparr> s \<and>
         invoke w \<lparr>name = ''get_issue'', arguments = Some a1\<rparr> s =
           await (axios_get w (''/issues/'' @ i @ ''/'') [])
             (\<lambda>response. sync (issue_summary (data response))) s"
proof -
  have "invoke w \<lparr>name = ''get_issue'', arguments = Some a1\<rparr> s =
        invoke w \<lparr>name = ''get_issue'', arguments = Some a2\<rparr> s"
    unfolding get_issue_invoke [OF assms(1,3,4)] get_issue_invoke [OF assms(2,5,6)] ..
  then show ?thesis
    by (simp add: CallToolRequest_handler_def get_issue_invoke [OF assms(1,3,4)])
qed

theorem C10_witness:
  "CallToolRequest_handler (example_process (serving issue_7))
     \<lparr>name = ''get_issue'',
      arguments = Some [(''issue_id'', JString ''7''), (''org_slug'', JString ''acme''),
                        (''project_slug'', JString ''web'')]\<rparr> [] =
   CallToolRequest_handler (example_process (serving issue_7))
     \<lparr>name = ''get_issue'',
      arguments = Some [(''project_slug'', JString ''mobile''), (''org_slug'', JString ''umbrella''),
                        (''issue_id'', JString ''7'')]\<rparr> []"
proof -
  let ?a1 = "[(''issue_id'', JString ''7''), (''org_slug'', JString ''acme''),
              (''project_slug'', JString ''web'')]"
  let ?a2 = "[(''project_slug'', JString ''mobile''), (''org_slug'', JString ''umbrella''),
              (''issue_id'', JString ''7'')]"
  have 1: "own ?a1 ''issue_id'' = JString ''7''" and 2: "own ?a2 ''issue_id'' = JString ''7''"
    and 3: "own ?a1 ''org_slug'' = JString ''acme''" and 4: "own ?a1 ''project_slug'' = JString ''web''"
    and 5: "own ?a2 ''org_slug'' = JString ''umbrella''"
    and 6: "own ?a2 ''project_slug'' = JString ''mobile''"
    by (simp_all add: own_def)
  from C10_get_issue_ignores_slugs [OF 1 2 3 4 5 6] show ?thesis by blast
qed

subsection \<open>C2: retries\<close>

lemma twice_then_fulfilled:
  "upstream w (sent s) u ps = Rejected m0 \<Longrightarrow> upstream w (sent s + 1) u ps = Rejected m1 \<Longrightarrow>
   upstream w (sent s + 2) u ps = Fulfilled r \<Longrightarrow>
   axios_get w u ps s = (Inr r, s @ [Sent u ps, Slept 1000, Sent u ps, Slept 2000, Sent u ps])"
  by (simp add: axios_get_cases)

lemma four_times_rejected:
  "upstream w (sent s) u ps = Rejected m0 \<Longrightarrow> upstream w (sent s + 1) u ps = Rejected m1 \<Longrightarrow>
   upstream w (sent s + 2) u ps = Rejected m2 \<Longrightarrow> upstream w (sent s + 3) u ps = Rejected m3 \<Longrightarrow>
   axios_get w u ps s =
     (Inl (AxiosError m3),
      s @ [Sent u ps, Slept 1000, Sent u ps, Slept 2000, Sent u ps, Slept 3000, Sent u ps])"
  by (simp add: axios_get_cases)

text \<open>
  C2: a request handed to the client is attempted until an attempt succeeds or three
  retries are used up: some \<open>j \<le> 3\<close> retries are made, every attempt before the last
  failed, retry \<open>n\<close> is preceded by a delay of \<open>n * 1000\<close> milliseconds, and the outcome is
  that of the last attempt. A request that fails twice and then succeeds is fulfilled after
  delays of 1000 and 2000 milliseconds, and \<^verbatim>\<open>get_issue\<close>, called with its three
  arguments as strings, then returns a successful result; a request that fails four times
  in a row is rejected with the failure the upstream gave last, unwrapped, and
  \<^verbatim>\<open>get_issue\<close> then returns the envelope with \<^verbatim>\<open>isError\<close> true and that failure's
  message as details.
\<close>

theorem C2_retry_policy:
  fixes w :: process and a :: "(string \<times> js_value) list" and i :: string
  defines "issue \<equiv> ''/issues/'' @ i @ ''/''"
  shows
  "(\<exists>j\<le>3. (\<forall>k<j. \<exists>m. upstream w (sent s + k) u ps = Rejected m) \<and>
      (j < 3 \<longrightarrow> (\<exists>r. upstream w (sent s + j) u ps = Fulfilled r)) \<and>
      axios_get w u ps s =
        (case upstream w (sent s + j) u ps of
           Fulfilled r \<Rightarrow> Inr r
         | Rejected m \<Rightarrow> Inl (AxiosError m),
         s @ Sent u ps # concat (map (\<lambda>n. [Slept (n * 1000), Sent u ps]) [1..<Suc j]))) \<and>
   (\<forall>m0 m1 r.
      upstream w (sent s) u ps = Rejected m0 \<and> upstream w (sent s + 1) u ps = Rejected m1 \<and>
      upstream w (sent s + 2) u ps = Fulfilled r \<longrightarrow>
      axios_get w u ps s = (Inr r, s @ [Sent u ps, Slept 1000, Sent u ps, Slept 2000, Sent u ps])) \<and>
   (\<forall>m0 m1 m2 m3.
      upstream w (sent s) u ps = Rejected m0 \<and> upstream w (sent s + 1) u ps = Rejected m1 \<and>
      upstream w (sent s + 2) u ps = Rejected m2 \<and> upstream w (sent s + 3) u ps = Rejected m3 \<longrightarrow>
      axios_get w u ps s =
        (Inl (AxiosError m3),
         s @ [Sent u ps, Slept 1000, Sent u ps, Slept 2000, Sent u ps, Slept 3000, Sent u ps])) \<and>
   (\<forall>m0 m1 r v.
      own a ''issue_id'' = JString i \<and> own a ''org_slug'' = JString org \<and>
      own a ''project_slug'' = JString p \<and>
      upstream w (sent s) issue [] = Rejected m0 \<and> upstream w (sent s + 1) issue [] = Rejected m1 \<and>
      upstream w (sent s + 2) issue [] = Fulfilled r \<and> issue_summary (data r) = Inr v \<longrightarrow>
      CallToolRequest_handler w \<lparr>name = ''get_issue'', arguments = Some a\<rparr> s =
        (Inr \<lparr>meta = [], content = [\<lparr>block_type = ''text'', block_text = JSON_stringify v\<rparr>],
              isError = None\<rparr>,
         s @ [Sent issue [], Slept 1000, Sent issue [], Slept 2000, Sent issue []])) \<and>
   (\<forall>m0 m1 m2 m3.
      own a ''issue_id'' = JString i \<and> own a ''org_slug'' = JString org \<and>
      own a ''project_slug'' = JString p \<and>
      upstream w (sent s) issue [] = Rejected m0 \<and> upstream w (sent s + 1) issue [] = Rejected m1 \<and>
      upstream w (sent s + 2) issue [] = Rejected m2 \<and> upstream w (sent s + 3) issue [] = Rejected m3 \<longrightarrow>
      CallToolRequest_handler w \<lparr>name = ''get_issue'', arguments = Some a\<rparr> s =
        (Inr \<lparr>meta = [],
              content = [\<lparr>block_type = ''text'',
                          block_text = JSON_stringify (JObject
                            [(''error'', JString ''Failed to execute tool''),
                             (''details'', JString m3)])\<rparr>],
              isError = Some True\<rparr>,
         s @ [Sent issue [], Slept 1000, Sent issue [], Slept 2000, Sent issue [], Slept 3000,
              Sent issue []]))"
proof (intro conjI allI impI)
  show "\<exists>j\<le>3. (\<forall>k<j. \<exists>m. upstream w (sent s + k) u ps = Rejected m) \<and>
      (j < 3 \<longrightarrow> (\<exists>r. upstream w (sent s + j) u ps = Fulfilled r)) \<and>
      axios_get w u ps s =
        (case upstream w (sent s + j) u ps of
           Fulfilled r \<Rightarrow> Inr r
         | Rejected m \<Rightarrow> Inl (AxiosError m),
         s @ Sent u ps # concat (map (\<lambda>n. [Slept (n * 1000), Sent u ps]) [1..<Suc j]))"
    by (rule retries_ex)
next
  fix m0 m1 r
  assume "upstream w (sent s) u ps = Rejected m0 \<and> upstream w (sent s + 1) u ps = Rejected m1 \<and>
      upstream w (sent s + 2) u ps = Fulfilled r"
  then show "axios_get w u ps s = (Inr r, s @ [Sent u ps, Slept 1000, Sent u ps, Slept 2000, Sent u ps])"
    by (simp add: twice_then_fulfilled)
next
  fix m0 m1 m2 m3
  assume "upstream w (sent s) u ps = Rejected m0 \<and> upstream w (sent s + 1) u ps = Rejected m1 \<and>
      upstream w (sent s + 2) u ps = Rejected m2 \<and> upstream w (sent s + 3) u ps = Rejected m3"
  then show "axios_get w u ps s =
        (Inl (AxiosError m3),
         s @ [Sent u ps, Slept 1000, Sent u ps, Slept 2000, Sent u ps, Slept 3000, Sent u ps])"
    by (simp add: four_times_rejected)
next
  fix m0 m1 r v
  assume h: "own a ''issue_id'' = JString i \<and> own a ''org_slug'' = JString org \<and>
      own a ''project_slug'' = JString p \<and>
      upstream w (sent s) issue [] = Rejected m0 \<and> upstream w (sent s + 1) issue [] = Rejected m1 \<and>
      upstream w (sent s + 2) issue [] = Fulfilled r \<and> issue_summary (data r) = Inr v"
  then have "axios_get w issue [] s =
      (Inr r, s @ [Sent issue [], Slept 1000, Sent issue [], Slept 2000, Sent issue []])"
    by (simp add: twice_then_fulfilled)
  moreover have "invoke w \<lparr>name = ''get_issue'', arguments = Some a\<rparr> s =
      await (axios_get w issue []) (\<lambda>response. sync (issue_summary (data response))) s"
    unfolding issue_def using h by (intro get_issue_invoke) simp_all
  ultimately have "invoke w \<lparr>name = ''get_issue'', arguments = Some a\<rparr> s =
      (Inr v, s @ [Sent issue [], Slept 1000, Sent issue [], Slept 2000, Sent issue []])"
    using h by (simp add: io_defs)
  then show "CallToolRequest_handler w \<lparr>name = ''get_issue'', arguments = Some a\<rparr> s =
        (Inr \<lparr>meta = [], content = [\<lparr>block_type = ''text'', block_text = JSON_stringify v\<rparr>],
              isError = None\<rparr>,
         s @ [Sent issue [], Slept 1000, Sent issue [], Slept 2000, Sent issue []])"
    by (simp add: handler_registered success_result_def)
next
  fix m0 m1 m2 m3
  assume h: "own a ''issue_id'' = JString i \<and> own a ''org_slug'' = JString org \<and>
      own a ''project_slug'' = JString p \<and>
      upstream w (sent s) issue [] = Rejected m0 \<and> upstream w (sent s + 1) issue [] = Rejected m1 \<and>
      upstream w (sent s + 2) issue [] = Rejected m2 \<and> upstream w (sent s + 3) issue [] = Rejected m3"
  then have "axios_get w issue [] s =
      (Inl (AxiosError m3),
       s @ [Sent issue [], Slept 1000, Sent issue [], Slept 2000, Sent issue [], Slept 3000,
            Sent issue []])"
    by (simp add: four_times_rejected)
  moreover have "invoke w \<lparr>name = ''get_issue'', arguments = Some a\<rparr> s =
      await (axios_get w issue []) (\<lambda>response. sync (issue_summary (data response))) s"
    unfolding issue_def using h by (intro get_issue_invoke) simp_all
  ultimately have "invoke w \<lparr>name = ''get_issue'', arguments = Some a\<rparr> s =
      (Inl (AxiosError m3),
       s @ [Sent issue [], Slept 1000, Sent issue [], Slept 2000, Sent issue [], Slept 3000,
            Sent issue []])"
    by (simp add: io_defs)
  then show "CallToolRequest_handler w \<lparr>name = ''get_issue'', arguments = Some a\<rparr> s =
        (Inr \<lparr>meta = [],
              content = [\<lparr>block_type = ''text'',
                          block_text = JSON_stringify (JObject
                            [(''error'', JString ''Failed to execute tool''),
                             (''details'', JString m3)])\<rparr>],
              isError = Some True\<rparr>,
         s @ [Sent issue [], Slept 1000, Sent issue [], Slept 2000, Sent issue [], Slept 3000,
              Sent issue []])"
    by (simp add: handler_registered error_result_def del: JSON_stringify.simps)
qed

theorem C2_witness:
  "CallToolRequest_handler (example_process (failing 2 issue_7))
     \<lparr>name = ''get_issue'',
      arguments = Some [(''issue_id'', JString ''7''), (''org_slug'', JString ''acme''),
                        (''project_slug'', JString ''web'')]\<rparr> [] =
   (Inr \<lparr>meta = [],
         content = [\<lparr>block_type = ''text'',
                     block_text = JSON_stringify (JObject
                       [(''id'', JString ''7''), (''title'', JString ''Boom''),
                        (''permalink'', JString ''https://sentry.io/acme/issues/7/'')])\<rparr>],
         isError = None\<rparr>,
    [Sent ''/issues/7/'' [], Slept 1000, Sent ''/issues/7/'' [], Slept 2000, Sent ''/issues/7/'' []]) \<and>
   CallToolRequest_handler (example_process (failing 4 issue_7))
     \<lparr>name = ''get_issue'',
      arguments = Some [(''issue_id'', JString ''7''), (''org_slug'', JString ''acme''),
                        (''project_slug'', JString ''web'')]\<rparr> [] =
   (Inr \<lparr>meta = [],
         content = [\<lparr>block_type = ''text'',
                     block_text = JSON_stringify (JObject
                       [(''error'', JString ''Failed to execute tool''),
                        (''details'', JString ''Request failed with status code 503'')])\<rparr>],
         isError = Some True\<rparr>,
    [Sent ''/issues/7/'' [], Slept 1000, Sent ''/issues/7/'' [], Slept 2000, Sent ''/issues/7/'' [],
     Slept 3000, Sent ''/issues/7/'' []])"
proof -
  let ?a = "[(''issue_id'', JString ''7''), (''org_slug'', JString ''acme''),
             (''project_slug'', JString ''web'')]"
  have s: "issue_summary issue_7 =
      Inr (JObject [(''id'', JString ''7''), (''title'', JString ''Boom''),
                    (''permalink'', JString ''https://sentry.io/acme/issues/7/'')])"
    by (simp add: issue_summary_def issue_7_def and_then_def own_def)
  show ?thesis
    using
      C2_retry_policy [where w = "example_process (failing 2 issue_7)" and s = "[]" and a = ?a
        and u = "''/issues/7/''" and ps = "[]" and i = "''7''" and org = "''acme''"
        and p = "''web''"]
      C2_retry_policy [where w = "example_process (failing 4 issue_7)" and s = "[]" and a = ?a
        and u = "''/issues/7/''" and ps = "[]" and i = "''7''" and org = "''acme''"
        and p = "''web''"]
    by (simp add: example_defs own_def s decimal_def digit_char_def
          del: JSON_stringify.simps)
qed

subsection \<open>C5: the releases, newest first\<close>

lemma getSortedReleases_dated:
  assumes "axios_get w (''projects/'' @ org @ ''/'' @ p @ ''/releases/'') [] s = (Inr response, s')"
    and "data response = JArray xs"
    and "\<forall>x\<in>set xs. dated w x"
  shows "getSortedReleases w org p s =
         (Inr (map projected (sort_key (\<lambda>x. - release_time w x) xs)), s')"
  using assms
  by (simp add: getSortedReleases_def await_def sync_def sorted_projection_dated
        del: sorted_projection.simps)

text \<open>
  C5: when the upstream answers the release request with an array of dated elements, in
  any order, \<^verbatim>\<open>get_releases\<close> returns them sorted by \<^verbatim>\<open>dateCreated\<close>, newest first
  (a stable sort), each cut down to exactly \<^verbatim>\<open>version\<close>, \<^verbatim>\<open>dateCreated\<close> and
  \<^verbatim>\<open>newGroups\<close>.
\<close>

theorem C5_sorted_and_projected:
  assumes "axios_get w (''projects/'' @ or_else org (SENTRY_ORG_SLUG w) @ ''/'' @ p @ ''/releases/'') [] s
           = (Inr response, s')"
    and "data response = JArray xs"
    and "\<forall>x\<in>set xs. dated w x"
  shows "\<exists>ys. get_releases_exec w p org s = (Inr (JArray ys), s') \<and>
           ys = map projected (sort_key (\<lambda>x. - release_time w x) xs) \<and>
           sorted_wrt (\<lambda>a b. release_time w b \<le> release_time w a) ys \<and>
           mset ys = image_mset projected (mset xs) \<and>
           (\<forall>y\<in>set ys. \<exists>v d n.
              y = JObject [(''version'', v), (''dateCreated'', d), (''newGroups'', n)])"
proof -
  let ?ys = "map projected (sort_key (\<lambda>x. - release_time w x) xs)"
  have "get_releases_exec w p org s = (Inr (JArray ?ys), s')"
    using getSortedReleases_dated [OF assms] by (simp add: get_releases_exec_def io_defs)
  moreover have "sorted_wrt (\<lambda>a b. release_time w b \<le> release_time w a) ?ys"
    using assms(3) by (rule newest_first_sorted)
  moreover have "mset ?ys = image_mset projected (mset xs)"
    by simp
  moreover have "\<forall>y\<in>set ?ys. \<exists>v d n.
      y = JObject [(''version'', v), (''dateCreated'', d), (''newGroups'', n)]"
    by (auto simp: projected_def)
  ultimately show ?thesis by blast
qed

lemma dated_examples: "dated (example_process server) release_a" "dated (example_process server) release_b"
  by (simp_all add: dated_def example_process_def example_getTime_def release_a_def release_b_def own_def)

lemma example_times:
  "release_time (example_process server) release_a = 1698332400000"
  "release_time (example_process server) release_b = 1698402600000"
  by (simp_all add: release_time_def example_process_def example_getTime_def release_a_def
        release_b_def own_def)

lemma projected_examples:
  "projected release_a =
     JObject [(''version'', JString ''a''), (''dateCreated'', JString ''2023-10-26T15:00:00Z''),
              (''newGroups'', JNumber (Num 2))]"
  "projected release_b =
     JObject [(''version'', JString ''b''), (''dateCreated'', JString ''2023-10-27T10:30:00Z''),
              (''newGroups'', JNumber (Num 0))]"
  by (simp_all add: projected_def field_def release_a_def release_b_def own_def)

lemma example_releases_request:
  "axios_get (example_process (sentry body)) ''projects/acme/web/releases/'' [] [] =
     (Inr \<lparr>status = 200, data = body\<rparr>, [Sent ''projects/acme/web/releases/'' []])"
  by (simp add: axios_get_cases example_defs)

theorem C5_witness:
  "get_releases_exec (example_process (sentry (JArray [release_a, release_b]))) ''web'' None [] =
     (Inr (JArray
        [JObject [(''version'', JString ''b''), (''dateCreated'', JString ''2023-10-27T10:30:00Z''),
                  (''newGroups'', JNumber (Num 0))],
         JObject [(''version'', JString ''a''), (''dateCreated'', JString ''2023-10-26T15:00:00Z''),
                  (''newGroups'', JNumber (Num 2))]]),
      [Sent ''projects/acme/web/releases/'' []]) \<and>
   get_releases_exec (example_process (sentry (JArray [release_b, release_a]))) ''web'' None [] =
     (Inr (JArray
        [JObject [(''version'', JString ''b''), (''dateCreated'', JString ''2023-10-27T10:30:00Z''),
                  (''newGroups'', JNumber (Num 0))],
         JObject [(''version'', JString ''a''), (''dateCreated'', JString ''2023-10-26T15:00:00Z''),
                  (''newGroups'', JNumber (Num 2))]]),
      [Sent ''projects/acme/web/releases/'' []])"
proof -
  let ?ab = "JArray [release_a, release_b]" and ?ba = "JArray [release_b, release_a]"
  have u: "''projects/'' @ or_else None (SENTRY_ORG_SLUG (example_process (sentry body))) @ ''/'' @ ''web''
             @ ''/releases/'' = ''projects/acme/web/releases/''" for body
    by (simp add: or_else_def example_process_def)
  have ab: "axios_get (example_process (sentry ?ab))
      (''projects/'' @ or_else None (SENTRY_ORG_SLUG (example_process (sentry ?ab))) @ ''/'' @ ''web''
         @ ''/releases/'') [] [] =
      (Inr \<lparr>status = 200, data = ?ab\<rparr>, [Sent ''projects/acme/web/releases/'' []])"
    unfolding u by (rule example_releases_request)
  have ba: "axios_get (example_process (sentry ?ba))
      (''projects/'' @ or_else None (SENTRY_ORG_SLUG (example_process (sentry ?ba))) @ ''/'' @ ''web''
         @ ''/releases/'') [] [] =
      (Inr \<lparr>status = 200, data = ?ba\<rparr>, [Sent ''projects/acme/web/releases/'' []])"
    unfolding u by (rule example_releases_request)
  have d1: "\<forall>x\<in>set [release_a, release_b]. dated (example_process (sentry ?ab)) x"
    and d2: "\<forall>x\<in>set [release_b, release_a]. dated (example_process (sentry ?ba)) x"
    by (simp_all add: dated_examples)
  from C5_sorted_and_projected [OF ab _ d1] C5_sorted_and_projected [OF ba _ d2]
  show ?thesis
    by (simp add: example_times projected_examples)
qed

subsection \<open>C4: get_releases and list_recent_releases\<close>

lemma example_env:
  "SENTRY_ORG_SLUG (example_process server) = ''acme''"
  "SENTRY_BASE_URL (example_process server) = ''https://sentry.io/api/0/''"
  "upstream (example_process server) = server"
  by (simp_all add: example_process_def)

lemma get_releases_example:
  "get_releases_exec (example_process (sentry (JArray [release_a, release_b]))) ''web'' None [] =
     (Inr (JArray [projected release_b, projected release_a]),
      [Sent ''projects/acme/web/releases/'' []])"
proof -
  let ?w = "example_process (sentry (JArray [release_a, release_b]))"
  have "getSortedReleases ?w ''acme'' ''web'' [] =
      (Inr (map projected (sort_key (\<lambda>x. - release_time ?w x) [release_a, release_b])),
       [Sent ''projects/acme/web/releases/'' []])"
    by (rule getSortedReleases_dated [where response = "\<lparr>status = 200, data = JArray [release_a, release_b]\<rparr>"])
       (simp_all add: example_releases_request dated_examples)
  then show ?thesis
    by (simp add: get_releases_exec_def or_else_def example_times await_def return_def
          example_env)
qed

lemma recent_entry_string:
  "member y ''version'' = Inr (JString v) \<Longrightarrow>
   recent_entry y =
     Inr (JObject [(''version'', JString v), (''date'', field y ''dateCreated''),
                   (''new_issues'', field y ''newGroups''),
                   (''type'', JString (if includes_str v ''mobile'' then ''mobile'' else ''desktop''))])"
  by (cases y) (simp_all add: recent_entry_def and_then_def field_def cannot_read_def)

lemma map_array_recent_entry:
  "\<forall>y\<in>set ys. \<exists>v. member y ''version'' = Inr (JString v) \<Longrightarrow>
   \<exists>es. map_array recent_entry ys = Inr es \<and>
        list_all2 (\<lambda>e y. member e ''version'' = member y ''version'' \<and>
                         member e ''date'' = member y ''dateCreated'' \<and>
                         member e ''new_issues'' = member y ''newGroups'' \<and>
                         (member e ''type'' = Inr (JString ''mobile'') \<or>
                          member e ''type'' = Inr (JString ''desktop''))) es ys"
proof (induction ys)
  case Nil
  then show ?case by simp
next
  case (Cons y ys)
  then obtain v where v: "member y ''version'' = Inr (JString v)" by auto
  from Cons obtain es where es: "map_array recent_entry ys = Inr es"
    and rel: "list_all2 (\<lambda>e y. member e ''version'' = member y ''version'' \<and>
                         member e ''date'' = member y ''dateCreated'' \<and>
                         member e ''new_issues'' = member y ''newGroups'' \<and>
                         (member e ''type'' = Inr (JString ''mobile'') \<or>
                          member e ''type'' = Inr (JString ''desktop''))) es ys"
    by auto
  have y: "\<exists>kvs. y = JObject kvs" using v by (cases y) simp_all
  show ?case
    using v es rel y by (auto simp add: recent_entry_string field_def own_def)
qed

lemma unbounded_slice:
  "c = Infinity \<or> (\<exists>n. c = Num n \<and> int (length ys) \<le> n) \<Longrightarrow>
   slice0 ys (if truthy (JNumber c) then c else Num 5) = ys"
  by auto

lemma getSortedReleases_example:
  "getSortedReleases (example_process (sentry (JArray [release_a, release_b]))) ''acme'' ''web'' [] =
     (Inr [projected release_b, projected release_a], [Sent ''projects/acme/web/releases/'' []])"
proof -
  let ?w = "example_process (sentry (JArray [release_a, release_b]))"
  have "getSortedReleases ?w ''acme'' ''web'' [] =
      (Inr (map projected (sort_key (\<lambda>x. - release_time ?w x) [release_a, release_b])),
       [Sent ''projects/acme/web/releases/'' []])"
    by (rule getSortedReleases_dated [where response = "\<lparr>status = 200, data = JArray [release_a, release_b]\<rparr>"])
       (simp_all add: example_releases_request dated_examples)
  then show ?thesis
    by (simp add: example_times)
qed

lemma recent_entry_examples:
  "recent_entry (JObject [(''version'', JString ''a''),
       (''dateCreated'', JString ''2023-10-26T15:00:00Z''), (''newGroups'', JNumber (Num 2))]) =
     Inr (JObject [(''version'', JString ''a''), (''date'', JString ''2023-10-26T15:00:00Z''),
                   (''new_issues'', JNumber (Num 2)), (''type'', JString ''desktop'')])"
  "recent_entry (JObject [(''version'', JString ''b''),
       (''dateCreated'', JString ''2023-10-27T10:30:00Z''), (''newGroups'', JNumber (Num 0))]) =
     Inr (JObject [(''version'', JString ''b''), (''date'', JString ''2023-10-27T10:30:00Z''),
                   (''new_issues'', JNumber (Num 0)), (''type'', JString ''desktop'')])"
  by (simp_all add: recent_entry_def and_then_def own_def)

text \<open>
  Each operation gives its entries its own shape: \<^verbatim>\<open>get_releases\<close> the keys
  \<^verbatim>\<open>version\<close>, \<^verbatim>\<open>dateCreated\<close>, \<^verbatim>\<open>newGroups\<close>, and \<^verbatim>\<open>list_recent_releases\<close> the
  keys \<^verbatim>\<open>version\<close>, \<^verbatim>\<open>date\<close>, \<^verbatim>\<open>new_issues\<close>, \<^verbatim>\<open>type\<close>. Here are both on the
  two example releases.
\<close>

lemma release_list_shapes:
  "get_releases_exec (example_process (sentry (JArray [release_a, release_b]))) ''web'' None [] =
     (Inr (JArray
        [JObject [(''version'', JString ''b''), (''dateCreated'', JString ''2023-10-27T10:30:00Z''),
                  (''newGroups'', JNumber (Num 0))],
         JObject [(''version'', JString ''a''), (''dateCreated'', JString ''2023-10-26T15:00:00Z''),
                  (''newGroups'', JNumber (Num 2))]]),
      [Sent ''projects/acme/web/releases/'' []]) \<and>
   list_recent_releases_exec (example_process (sentry (JArray [release_a, release_b]))) ''web'' None
       (Some Infinity) [] =
     (Inr (JArray
        [JObject [(''version'', JString ''b''), (''date'', JString ''2023-10-27T10:30:00Z''),
                  (''new_issues'', JNumber (Num 0)), (''type'', JString ''desktop'')],
         JObject [(''version'', JString ''a''), (''date'', JString ''2023-10-26T15:00:00Z''),
                  (''new_issues'', JNumber (Num 2)), (''type'', JString ''desktop'')]]),
      [Sent ''projects/acme/web/releases/'' []])"
  by (simp add: get_releases_exec_def list_recent_releases_exec_def or_else_def example_env io_defs
        getSortedReleases_example recent_entry_examples projected_examples)

text \<open>
  C4: \<^verbatim>\<open>get_releases\<close> returns the same entries as \<^verbatim>\<open>list_recent_releases\<close> with an
  unbounded count, in the same order. When \<^verbatim>\<open>get_releases\<close> returns a list (its versions
  strings, as a release has them), \<^verbatim>\<open>list_recent_releases\<close> with the count Infinity, or
  with a number not below the length of the list, sends the same requests and returns one
  entry for each entry of \<^verbatim>\<open>get_releases\<close>, in the same order: the same version, the same
  date (under \<^verbatim>\<open>date\<close>) and the same count of new issues (under \<^verbatim>\<open>new_issues\<close>), with
  the \<^verbatim>\<open>type\<close> its own shape adds.
\<close>

theorem C4_same_releases_restyled:
  assumes "get_releases_exec w p org s = (Inr (JArray ys), s')"
    and "\<forall>y\<in>set ys. \<exists>v. member y ''version'' = Inr (JString v)"
    and "c = Infinity \<or> (\<exists>n. c = Num n \<and> int (length ys) \<le> n)"
  shows "\<exists>es. list_recent_releases_exec w p org (Some c) s = (Inr (JArray es), s') \<and>
           list_all2 (\<lambda>e y. member e ''version'' = member y ''version'' \<and>
                            member e ''date'' = member y ''dateCreated'' \<and>
                            member e ''new_issues'' = member y ''newGroups'' \<and>
                            (member e ''type'' = Inr (JString ''mobile'') \<or>
                             member e ''type'' = Inr (JString ''desktop''))) es ys"
proof -
  have g: "getSortedReleases w (or_else org (SENTRY_ORG_SLUG w)) p s = (Inr ys, s')"
    using assms(1)
    by (auto simp: get_releases_exec_def await_def return_def Let_def split: prod.splits sum.splits)
  obtain es where es: "map_array recent_entry ys = Inr es"
    and rel: "list_all2 (\<lambda>e y. member e ''version'' = member y ''version'' \<and>
                            member e ''date'' = member y ''dateCreated'' \<and>
                            member e ''new_issues'' = member y ''newGroups'' \<and>
                            (member e ''type'' = Inr (JString ''mobile'') \<or>
                             member e ''type'' = Inr (JString ''desktop''))) es ys"
    using map_array_recent_entry [OF assms(2)] by blast
  have "list_recent_releases_exec w p org (Some c) s = (Inr (JArray es), s')"
    using g es unbounded_slice [OF assms(3)]
    by (simp add: list_recent_releases_exec_def io_defs Let_def del: slice0.simps truthy.simps)
  with rel show ?thesis by blast
qed

theorem C4_witness:
  "\<exists>es. list_recent_releases_exec (example_process (sentry (JArray [release_a, release_b]))) ''web''
           None (Some Infinity) [] =
          (Inr (JArray es), [Sent ''projects/acme/web/releases/'' []]) \<and>
        list_all2 (\<lambda>e y. member e ''version'' = member y ''version'' \<and>
                         member e ''date'' = member y ''dateCreated'' \<and>
                         member e ''new_issues'' = member y ''newGroups'' \<and>
                         (member e ''type'' = Inr (JString ''mobile'') \<or>
                          member e ''type'' = Inr (JString ''desktop'')))
          es [projected release_b, projected release_a]"
proof -
  have v: "\<forall>y\<in>set [projected release_b, projected release_a].
             \<exists>v. member y ''version'' = Inr (JString v)"
    by (simp add: projected_examples own_def)
  have c: "Infinity = Infinity \<or>
           (\<exists>n. Infinity = Num n \<and> int (length [projected release_b, projected release_a]) \<le> n)"
    by simp
  show ?thesis
    by (rule C4_same_releases_restyled [OF get_releases_example v c])
qed

subsection \<open>C3: the count of list_recent_releases\<close>

text \<open>
  C3 at the count 0: the dispatcher passes a falsy \<^verbatim>\<open>count\<close> on as undefined and
  \<^verbatim>\<open>exec\<close> replaces it by 5, so with two releases upstream the call returns two entries,
  not at most zero.
\<close>

theorem C3_count_zero_is_not_a_bound:
  "invoke (example_process (sentry (JArray [release_a, release_b])))
     \<lparr>name = ''list_recent_releases'',
      arguments = Some [(''project_slug'', JString ''web''), (''count'', JNumber (Num 0))]\<rparr> [] =
   (Inr (JArray
      [JObject [(''version'', JString ''b''), (''date'', JString ''2023-10-27T10:30:00Z''),
                (''new_issues'', JNumber (Num 0)), (''type'', JString ''desktop'')],
       JObject [(''version'', JString ''a''), (''date'', JString ''2023-10-26T15:00:00Z''),
                (''new_issues'', JNumber (Num 2)), (''type'', JString ''desktop'')]]),
    [Sent ''projects/acme/web/releases/'' []])"
  by (simp add: invoke_def Let_def lacks_def has_key_def own_def string_or_undefined_def
        number_or_undefined_def ToString_def
        list_recent_releases_exec_def or_else_def example_env io_defs
        getSortedReleases_example projected_examples recent_entry_examples)

subsection \<open>C6: the latest release\<close>










section \<open>Further properties\<close>

lemma projected_version:
  "member x ''version'' = Inr (JString v) \<Longrightarrow> member (projected x) ''version'' = Inr (JString v)"
  by (simp add: projected_def field_def own_def)

text \<open>
  The count of \<^verbatim>\<open>list_recent_releases\<close> where it is a bound: an omitted count is 5, and
  for a count \<open>N \<ge> 1\<close> and an upstream array of dated elements with string versions the
  operation returns the first \<open>N\<close> releases of the list sorted newest first, at most \<open>N\<close>
  entries.
\<close>

theorem list_recent_releases_bound:
  assumes "axios_get w (''projects/'' @ or_else org (SENTRY_ORG_SLUG w) @ ''/'' @ p @ ''/releases/'') [] s
           = (Inr response, s')"
    and "data response = JArray xs"
    and "\<forall>x\<in>set xs. dated w x"
    and "\<forall>x\<in>set xs. \<exists>v. member x ''version'' = Inr (JString v)"
    and "1 \<le> N"
  shows "list_recent_releases_exec w p org None s = list_recent_releases_exec w p org (Some (Num 5)) s \<and>
         (\<exists>es ys. list_recent_releases_exec w p org (Some (Num (int N))) s = (Inr (JArray es), s') \<and>
           length es \<le> N \<and>
           ys = take N (map projected (sort_key (\<lambda>x. - release_time w x) xs)) \<and>
           sorted_wrt (\<lambda>a b. release_time w b \<le> release_time w a) ys \<and>
           list_all2 (\<lambda>e y. member e ''version'' = member y ''version'' \<and>
                            member e ''date'' = member y ''dateCreated'' \<and>
                            member e ''new_issues'' = member y ''newGroups'' \<and>
                            (member e ''type'' = Inr (JString ''mobile'') \<or>
                             member e ''type'' = Inr (JString ''desktop''))) es ys)"
proof -
  let ?zs = "map projected (sort_key (\<lambda>x. - release_time w x) xs)"
  let ?ys = "take N ?zs"
  have g: "getSortedReleases w (or_else org (SENTRY_ORG_SLUG w)) p s = (Inr ?zs, s')"
    using assms(1-3) by (rule getSortedReleases_dated)
  have "\<forall>y\<in>set ?zs. \<exists>v. member y ''version'' = Inr (JString v)"
    using assms(4) by (auto intro: projected_version)
  then have "\<forall>y\<in>set ?ys. \<exists>v. member y ''version'' = Inr (JString v)"
    by (meson in_set_takeD)
  then obtain es where es: "map_array recent_entry ?ys = Inr es"
    and rel: "list_all2 (\<lambda>e y. member e ''version'' = member y ''version'' \<and>
                            member e ''date'' = member y ''dateCreated'' \<and>
                            member e ''new_issues'' = member y ''newGroups'' \<and>
                            (member e ''type'' = Inr (JString ''mobile'') \<or>
                             member e ''type'' = Inr (JString ''desktop''))) es ?ys"
    using map_array_recent_entry by blast
  have n: "slice0 ?zs (if truthy (JNumber (Num (int N))) then Num (int N) else Num 5) = ?ys"
    using assms(5) by simp
  have run: "list_recent_releases_exec w p org (Some (Num (int N))) s = (Inr (JArray es), s')"
    using g es n
    by (simp add: list_recent_releases_exec_def io_defs Let_def del: slice0.simps truthy.simps)
  have "length es = length ?ys" using rel by (rule list_all2_lengthD)
  then have len: "length es \<le> N" by simp
  have "sorted_wrt (\<lambda>a b. release_time w b \<le> release_time w a) ?zs"
    using assms(3) by (rule newest_first_sorted)
  then have "sorted_wrt (\<lambda>a b. release_time w b \<le> release_time w a) ?ys"
    by (rule sorted_wrt_take)
  moreover have "list_recent_releases_exec w p org None s =
      list_recent_releases_exec w p org (Some (Num 5)) s"
    by (simp add: list_recent_releases_exec_def)
  ultimately show ?thesis using run len rel by blast
qed

theorem list_recent_releases_bound_witness:
  "\<exists>es. list_recent_releases_exec (example_process (sentry (JArray [release_a, release_b]))) ''web''
          None (Some (Num 1)) [] =
          (Inr (JArray es), [Sent ''projects/acme/web/releases/'' []]) \<and>
        length es \<le> 1 \<and>
        list_all2 (\<lambda>e y. member e ''version'' = member y ''version'' \<and>
                         member e ''date'' = member y ''dateCreated'' \<and>
                         member e ''new_issues'' = member y ''newGroups'' \<and>
                         (member e ''type'' = Inr (JString ''mobile'') \<or>
                          member e ''type'' = Inr (JString ''desktop''))) es [projected release_b]"
proof -
  let ?w = "example_process (sentry (JArray [release_a, release_b]))"
  have u: "''projects/'' @ or_else None (SENTRY_ORG_SLUG ?w) @ ''/'' @ ''web'' @ ''/releases/''
           = ''projects/acme/web/releases/''"
    by (simp add: or_else_def example_env)
  have ax: "axios_get ?w (''projects/'' @ or_else None (SENTRY_ORG_SLUG ?w) @ ''/'' @ ''web''
              @ ''/releases/'') [] [] =
            (Inr \<lparr>status = 200, data = JArray [release_a, release_b]\<rparr>,
             [Sent ''projects/acme/web/releases/'' []])"
    unfolding u by (rule example_releases_request)
  have d: "\<forall>x\<in>set [release_a, release_b]. dated ?w x"
    by (simp add: dated_examples)
  have v: "\<forall>x\<in>set [release_a, release_b]. \<exists>v. member x ''version'' = Inr (JString v)"
    by (simp add: release_a_def release_b_def own_def)
  have n: "1 \<le> (1::nat)" by simp
  from list_recent_releases_bound [OF ax _ d v n]
  show ?thesis
    by (simp add: example_times)
qed

text \<open>
  The dispatcher never passes \<^verbatim>\<open>release_version\<close> to \<^verbatim>\<open>get_release_issues\<close>: for
  every argument object with a string \<^verbatim>\<open>project_slug\<close>, whatever else it says, the
  operation runs as if the release version were omitted and resolves the latest release.
\<close>

theorem release_issues_ignores_release_version:
  assumes "own a ''project_slug'' = JString p"
  shows "invoke w \<lparr>name = ''get_release_issues'', arguments = Some a\<rparr> s =
         await (sync (string_or_default a ''org_slug'' (SENTRY_ORG_SLUG w)))
           (\<lambda>org_slug. get_release_issues_exec w p (Some org_slug) None) s"
  using assms own_string_has_key [OF assms]
  by (simp add: invoke_def lacks_def await_sync)

theorem release_issues_ignores_release_version_witness:
  "invoke (example_process (sentry (JArray [release_a, release_b])))
     \<lparr>name = ''get_release_issues'',
      arguments = Some [(''project_slug'', JString ''web''), (''release_version'', JString ''b'')]\<rparr> [] =
   (Inr (JArray [JObject [(''id'', JString ''7''), (''title'', JString ''Boom''),
                          (''permalink'', JString ''https://sentry.io/acme/issues/7/'')]]),
    [Sent ''https://sentry.io/api/0/projects/acme/web/releases/'' [],
     Sent ''https://sentry.io/api/0/projects/acme/web/'' [],
     Sent ''https://sentry.io/api/0/organizations/acme/issues/''
       [(''project'', JString ''89''),
        (''query'', JString (''release:'' @ [CHR 0x22] @ ''a'' @ [CHR 0x22]))]])"
proof -
  have k: "own [(''project_slug'', JString ''web''), (''release_version'', JString ''b'')]
             ''project_slug'' = JString ''web''"
    by (simp add: own_def)
  show ?thesis
    unfolding release_issues_ignores_release_version [OF k]
    by (simp add: get_release_issues_exec_def string_or_default_def Let_def own_def or_else_def
          example_env io_defs
          axios_get_cases sentry_def ok_def release_a_def issue_7_def issue_summary_def)
qed

end
